theory Spec2Isabelle
  imports Main
begin

section \<open>Strings of the platform\<close>

text \<open>
  The route engine of \<^verbatim>\<open>x402HTTPResourceServer\<close> works on JavaScript strings. They are
  modelled as HOL strings, a text outside ASCII being carried as its UTF-8 bytes. The
  line terminators of \<^verbatim>\<open>.\<close> and the white space of \<^verbatim>\<open>\s\<close> are those of the language,
  the ones outside ASCII as their two or three bytes. Case mapping touches the letters
  a to z only.
\<close>

definition backslash :: char where
  "backslash = CHR 0x5C"

definition upper_char :: "char \<Rightarrow> char" where
  "upper_char c =
     (let n = (of_char c :: nat) in if 97 \<le> n \<and> n \<le> 122 then char_of (n - 32) else c)"

text \<open>\<^verbatim>\<open>s.toUpperCase()\<close>\<close>

definition toUpperCase :: "string \<Rightarrow> string" where
  "toUpperCase s = map upper_char s"

text \<open>\<^verbatim>\<open>s.includes(sub)\<close>: \<open>sub\<close> occurs in \<open>s\<close> as a contiguous run.\<close>

fun string_includes :: "string \<Rightarrow> string \<Rightarrow> bool" where
  "string_includes [] sub = (sub = [])"
| "string_includes (c # cs) sub =
     (take (length sub) (c # cs) = sub \<or> string_includes cs sub)"

text \<open>
  The characters that \<^verbatim>\<open>.\<close> of a regular expression refuses (no \<^verbatim>\<open>s\<close> flag): line
  feed, carriage return, and the separators U+2028 and U+2029, which are the bytes
  \<^verbatim>\<open>E2 80 A8\<close> and \<^verbatim>\<open>E2 80 A9\<close>.
\<close>

definition line_terminators :: "string list" where
  "line_terminators =
     [[CHR 0x0A], [CHR 0x0D], [CHR 0xE2, CHR 0x80, CHR 0xA8], [CHR 0xE2, CHR 0x80, CHR 0xA9]]"

definition is_line_terminator :: "string \<Rightarrow> bool" where
  "is_line_terminator t = (t \<in> set line_terminators)"

text \<open>The line terminator that a text starts with, when it starts with one.\<close>

definition line_terminator_ahead :: "string \<Rightarrow> string option" where
  "line_terminator_ahead s = find (\<lambda>t. take (length t) s = t) line_terminators"

text \<open>
  How many bytes lie between a position of a text and the next position that a regular
  expression may start at: a line terminator is passed whole, anything else byte by
  byte.
\<close>

definition character_width :: "string \<Rightarrow> nat" where
  "character_width s = (case line_terminator_ahead s of None \<Rightarrow> 1 | Some t \<Rightarrow> length t)"

text \<open>
  The characters of \<^verbatim>\<open>\s\<close>: tab, line feed, vertical tab, form feed, carriage return,
  space, U+00A0, U+1680, U+2000 to U+200A, U+2028, U+2029, U+202F, U+205F, U+3000 and
  U+FEFF.
\<close>

definition white_space_characters :: "string list" where
  "white_space_characters =
     [[CHR 0x09], [CHR 0x0A], [CHR 0x0B], [CHR 0x0C], [CHR 0x0D], [CHR 0x20],
      [CHR 0xC2, CHR 0xA0], [CHR 0xE1, CHR 0x9A, CHR 0x80],
      [CHR 0xE2, CHR 0x80, CHR 0x80], [CHR 0xE2, CHR 0x80, CHR 0x81],
      [CHR 0xE2, CHR 0x80, CHR 0x82], [CHR 0xE2, CHR 0x80, CHR 0x83],
      [CHR 0xE2, CHR 0x80, CHR 0x84], [CHR 0xE2, CHR 0x80, CHR 0x85],
      [CHR 0xE2, CHR 0x80, CHR 0x86], [CHR 0xE2, CHR 0x80, CHR 0x87],
      [CHR 0xE2, CHR 0x80, CHR 0x88], [CHR 0xE2, CHR 0x80, CHR 0x89],
      [CHR 0xE2, CHR 0x80, CHR 0x8A], [CHR 0xE2, CHR 0x80, CHR 0xA8],
      [CHR 0xE2, CHR 0x80, CHR 0xA9], [CHR 0xE2, CHR 0x80, CHR 0xAF],
      [CHR 0xE2, CHR 0x81, CHR 0x9F], [CHR 0xE3, CHR 0x80, CHR 0x80],
      [CHR 0xEF, CHR 0xBB, CHR 0xBF]]"

text \<open>The white space character that a text starts with, when it starts with one.\<close>

definition white_space_ahead :: "string \<Rightarrow> string option" where
  "white_space_ahead s = find (\<lambda>t. take (length t) s = t) white_space_characters"

section \<open>decodeURIComponent\<close>

text \<open>
  The built-in \<^verbatim>\<open>decodeURIComponent\<close>: every \<^verbatim>\<open>%XX\<close> stands for one octet; an
  octet below 0x80 is the character itself, a larger one must start a well-formed UTF-8
  sequence all of whose octets are escapes. Anything else throws \<^verbatim>\<open>URIError\<close>, which
  is the value \<open>None\<close>.
\<close>

definition hex_digit :: "char \<Rightarrow> nat option" where
  "hex_digit c =
     (let n = (of_char c :: nat) in
      if 48 \<le> n \<and> n \<le> 57 then Some (n - 48)
      else if 65 \<le> n \<and> n \<le> 70 then Some (n - 55)
      else if 97 \<le> n \<and> n \<le> 102 then Some (n - 87)
      else None)"

datatype uri_token = Raw char | Escaped nat

fun uri_tokens :: "string \<Rightarrow> uri_token list option" where
  "uri_tokens [] = Some []"
| "uri_tokens (c # cs) =
     (if c = CHR ''%'' then
        (case cs of
           h1 # h2 # rest \<Rightarrow>
             (case (hex_digit h1, hex_digit h2) of
                (Some a, Some b) \<Rightarrow> map_option (Cons (Escaped (16 * a + b))) (uri_tokens rest)
              | _ \<Rightarrow> None)
         | _ \<Rightarrow> None)
      else map_option (Cons (Raw c)) (uri_tokens cs))"

definition continuation :: "nat \<Rightarrow> bool" where
  "continuation b = (0x80 \<le> b \<and> b \<le> 0xBF)"

definition valid2 :: "nat \<Rightarrow> nat \<Rightarrow> bool" where
  "valid2 b b1 = (0xC2 \<le> b \<and> b \<le> 0xDF \<and> continuation b1)"

definition valid3 :: "nat \<Rightarrow> nat \<Rightarrow> nat \<Rightarrow> bool" where
  "valid3 b b1 b2 =
     (0xE0 \<le> b \<and> b \<le> 0xEF \<and> continuation b1 \<and> continuation b2 \<and>
      (b \<noteq> 0xE0 \<or> 0xA0 \<le> b1) \<and> (b \<noteq> 0xED \<or> b1 \<le> 0x9F))"

definition valid4 :: "nat \<Rightarrow> nat \<Rightarrow> nat \<Rightarrow> nat \<Rightarrow> bool" where
  "valid4 b b1 b2 b3 =
     (0xF0 \<le> b \<and> b \<le> 0xF4 \<and> continuation b1 \<and> continuation b2 \<and> continuation b3 \<and>
      (b \<noteq> 0xF0 \<or> 0x90 \<le> b1) \<and> (b \<noteq> 0xF4 \<or> b1 \<le> 0x8F))"

fun decode_tokens :: "uri_token list \<Rightarrow> string option" where
  "decode_tokens [] = Some []"
| "decode_tokens (Raw c # ts) = map_option (Cons c) (decode_tokens ts)"
| "decode_tokens (Escaped b # ts) =
     (if b < 0x80 then map_option (Cons (char_of b)) (decode_tokens ts)
      else if b < 0xE0 then
        (case ts of
           Escaped b1 # rest \<Rightarrow>
             if valid2 b b1 then map_option (\<lambda>s. map char_of [b, b1] @ s) (decode_tokens rest)
             else None
         | _ \<Rightarrow> None)
      else if b < 0xF0 then
        (case ts of
           Escaped b1 # Escaped b2 # rest \<Rightarrow>
             if valid3 b b1 b2
             then map_option (\<lambda>s. map char_of [b, b1, b2] @ s) (decode_tokens rest)
             else None
         | _ \<Rightarrow> None)
      else
        (case ts of
           Escaped b1 # Escaped b2 # Escaped b3 # rest \<Rightarrow>
             if valid4 b b1 b2 b3
             then map_option (\<lambda>s. map char_of [b, b1, b2, b3] @ s) (decode_tokens rest)
             else None
         | _ \<Rightarrow> None))"

definition decodeURIComponent :: "string \<Rightarrow> string option" where
  "decodeURIComponent s =
     (case uri_tokens s of None \<Rightarrow> None | Some ts \<Rightarrow> decode_tokens ts)"

section \<open>normalizePath\<close>

text \<open>\<^verbatim>\<open>path.split(/[?#]/)[0]\<close>: the text before the first \<^verbatim>\<open>?\<close> or \<^verbatim>\<open>#\<close>.\<close>

definition before_query :: "string \<Rightarrow> string" where
  "before_query path = takeWhile (\<lambda>c. c \<noteq> CHR ''?'' \<and> c \<noteq> CHR ''#'') path"

text \<open>\<^verbatim>\<open>.replace(/\\/g, "/")\<close>\<close>

definition backslashes_to_slashes :: "string \<Rightarrow> string" where
  "backslashes_to_slashes s = map (\<lambda>c. if c = backslash then CHR ''/'' else c) s"

text \<open>\<^verbatim>\<open>.replace(/\/+/g, "/")\<close>: every maximal run of slashes becomes one slash.\<close>

function collapse_slashes :: "string \<Rightarrow> string" where
  "collapse_slashes [] = []"
| "collapse_slashes (c # cs) =
     (if c = CHR ''/'' then CHR ''/'' # collapse_slashes (dropWhile (\<lambda>d. d = CHR ''/'') cs)
      else c # collapse_slashes cs)"
  by pat_completeness auto
termination
  by (relation "measure length") (auto simp: le_imp_less_Suc length_dropWhile_le)

text \<open>
  \<^verbatim>\<open>.replace(/(.+?)\/+$/, "$1")\<close>, in two steps. \<open>lazy_group s\<close> runs the pattern
  anchored at the start of \<open>s\<close>: the group takes one byte, unless a line terminator
  starts there; then the rest must be a non-empty run of slashes up to the end; when it
  is not, the lazy group takes one more. It returns the text of the group. A character
  of several bytes that is no line terminator goes into the group byte by byte: between
  its bytes the rest is no run of slashes.

  \<open>strip_trailing_slashes\<close> is the replacement: the first start position where the
  pattern matches wins, the match reaches the end of the string, and it is replaced by
  the group. After a start that failed the next start is behind the line terminator,
  when the failed start was on one, and one byte further otherwise. The second byte of
  a character is no position of the JavaScript string; the pattern fails there whenever
  it failed on the first byte, the group taking the same bytes, so that no match is
  gained.
\<close>

fun lazy_group :: "string \<Rightarrow> string option" where
  "lazy_group [] = None"
| "lazy_group (c # cs) =
     (if line_terminator_ahead (c # cs) \<noteq> None then None
      else if cs \<noteq> [] \<and> list_all (\<lambda>d. d = CHR ''/'') cs then Some [c]
      else map_option (Cons c) (lazy_group cs))"

function strip_trailing_slashes :: "string \<Rightarrow> string" where
  "strip_trailing_slashes s =
     (if s = [] then []
      else case lazy_group s of
             Some g \<Rightarrow> g
           | None \<Rightarrow>
               take (character_width s) s @
               strip_trailing_slashes (drop (character_width s) s))"
  by pat_completeness auto
termination
  by (relation "measure length")
    (auto simp: character_width_def line_terminator_ahead_def line_terminators_def)

declare strip_trailing_slashes.simps [simp del]

text \<open>
  \<^verbatim>\<open>normalizePath\<close>: the \<^verbatim>\<open>catch\<close> returns the raw path when decoding throws.
\<close>

definition normalizePath :: "string \<Rightarrow> string" where
  "normalizePath path =
     (let pathWithoutQuery = before_query path in
      case decodeURIComponent pathWithoutQuery of
        None \<Rightarrow> path
      | Some decodedPath \<Rightarrow>
          strip_trailing_slashes (collapse_slashes (backslashes_to_slashes decodedPath)))"

section \<open>Regular expressions of route patterns\<close>

text \<open>
  \<^verbatim>\<open>parseRoutePattern\<close> builds the source text of a regular expression and hands it to
  \<^verbatim>\<open>new RegExp(source, "i")\<close>. A compiled expression is known to the server by its
  method \<^verbatim>\<open>test\<close> alone, and it has neither the \<^verbatim>\<open>g\<close> nor the \<^verbatim>\<open>y\<close> flag, so that
  \<^verbatim>\<open>test\<close> keeps no state: an expression is the set of strings it accepts. The
  constructor of the platform is a parameter of \<^verbatim>\<open>parseRoutePattern\<close> and of the
  server's constructor: it answers an expression or throws.

  \<open>RegExp\<close> below is the constructor on the fragment of the syntax that the four
  replacements emit for a pattern without a backslash: a literal character, an escaped
  syntax character, \<^verbatim>\<open>.*?\<close>, \<^verbatim>\<open>[^\/]+\<close>, the empty class \<^verbatim>\<open>[]\<close> and a class that is
  never closed (a \<^verbatim>\<open>SyntaxError\<close>). Any other source is answered \<open>NotModelled\<close>.
\<close>

type_synonym regexp = "string \<Rightarrow> bool"

datatype rx_item =
    Lit char         \<comment> \<open>one character, compared without case\<close>
  | DotStarLazy      \<comment> \<open>\<^verbatim>\<open>.*?\<close>\<close>
  | NotSlashPlus     \<comment> \<open>\<^verbatim>\<open>[^\/]+\<close>\<close>
  | EmptyClass       \<comment> \<open>\<^verbatim>\<open>[]\<close>, which no character satisfies\<close>

datatype construct_error = SyntaxError | TypeError | NotModelled

definition syntax_characters :: string where
  "syntax_characters = ''^$.*+?()[]{}|/'' @ [backslash]"

definition not_slash_plus :: string where
  "not_slash_plus = ''^'' @ [backslash] @ ''/]+''"

fun parse_items :: "string \<Rightarrow> construct_error + rx_item list" where
  "parse_items [] = Inl NotModelled"
| "parse_items (c # cs) =
     (if c = CHR ''$'' then (if cs = [] then Inr [] else Inl NotModelled)
      else if c = backslash then
        (case cs of
           [] \<Rightarrow> Inl SyntaxError
         | d # ds \<Rightarrow>
             if d \<in> set syntax_characters
             then (case parse_items ds of Inl e \<Rightarrow> Inl e | Inr items \<Rightarrow> Inr (Lit d # items))
             else Inl NotModelled)
      else if c = CHR ''.'' then
        (if take 2 cs = ''*?''
         then (case parse_items (drop 2 cs) of
                 Inl e \<Rightarrow> Inl e | Inr items \<Rightarrow> Inr (DotStarLazy # items))
         else Inl NotModelled)
      else if c = CHR ''['' then
        (if take 1 cs = '']''
         then (case parse_items (drop 1 cs) of
                 Inl e \<Rightarrow> Inl e | Inr items \<Rightarrow> Inr (EmptyClass # items))
         else if take 5 cs = not_slash_plus
         then (case parse_items (drop 5 cs) of
                 Inl e \<Rightarrow> Inl e | Inr items \<Rightarrow> Inr (NotSlashPlus # items))
         else if CHR '']'' \<in> set cs then Inl NotModelled
         else Inl SyntaxError)
      else if c \<in> set ''*+?(){}|^'' then Inl NotModelled
      else (case parse_items cs of Inl e \<Rightarrow> Inl e | Inr items \<Rightarrow> Inr (Lit c # items)))"

text \<open>The items of a source that opens with the anchor \<^verbatim>\<open>^\<close>.\<close>

definition parse_source :: "string \<Rightarrow> construct_error + rx_item list" where
  "parse_source source =
     (case source of
        [] \<Rightarrow> Inl NotModelled
      | c # body \<Rightarrow> if c = CHR ''^'' then parse_items body else Inl NotModelled)"

text \<open>
  \<^verbatim>\<open>regex.test(s)\<close> for an expression anchored at both ends, by backtracking: the lazy
  star first tries the rest of the expression and then takes one more byte, unless a
  line terminator starts there; the class takes one byte that is not a slash (a line
  terminator as well) and then either stops or goes on. The
  expression has neither the \<^verbatim>\<open>g\<close> nor the \<^verbatim>\<open>y\<close> flag, so \<^verbatim>\<open>test\<close> keeps no state.
\<close>

fun test :: "rx_item list \<Rightarrow> string \<Rightarrow> bool" where
  "test [] s = (s = [])"
| "test (Lit c # items) s =
     (case s of [] \<Rightarrow> False | d # ds \<Rightarrow> upper_char c = upper_char d \<and> test items ds)"
| "test (DotStarLazy # items) s =
     (test items s \<or>
      (case s of [] \<Rightarrow> False
       | d # ds \<Rightarrow>
           line_terminator_ahead (d # ds) = None \<and> test (DotStarLazy # items) ds))"
| "test (NotSlashPlus # items) s =
     (case s of [] \<Rightarrow> False
      | d # ds \<Rightarrow> d \<noteq> CHR ''/'' \<and> (test items ds \<or> test (NotSlashPlus # items) ds))"
| "test (EmptyClass # items) s = False"

text \<open>\<^verbatim>\<open>new RegExp(source, "i")\<close> on the fragment.\<close>

definition RegExp :: "string \<Rightarrow> construct_error + regexp" where
  "RegExp source =
     (case parse_source source of Inl e \<Rightarrow> Inl e | Inr items \<Rightarrow> Inr (test items))"

section \<open>parseRoutePattern\<close>

text \<open>The text before the first white space character, and the text from it on.\<close>

fun before_white_space :: "string \<Rightarrow> string" where
  "before_white_space [] = []"
| "before_white_space (c # cs) =
     (if white_space_ahead (c # cs) \<noteq> None then [] else c # before_white_space cs)"

fun from_white_space :: "string \<Rightarrow> string" where
  "from_white_space [] = []"
| "from_white_space (c # cs) =
     (if white_space_ahead (c # cs) \<noteq> None then c # cs else from_white_space cs)"

text \<open>The text behind the run of white space characters that a text starts with.\<close>

function skip_white_space :: "string \<Rightarrow> string" where
  "skip_white_space s =
     (case white_space_ahead s of
        None \<Rightarrow> s
      | Some t \<Rightarrow> skip_white_space (drop (length t) s))"
  by pat_completeness auto
termination
proof (relation "measure length")
  show "wf (measure length)" by simp
next
  fix s t :: string
  assume "white_space_ahead s = Some t"
  then have "t \<in> set white_space_characters" and t: "take (length t) s = t"
    unfolding white_space_ahead_def find_Some_iff by auto
  then have "t \<noteq> []" by (auto simp: white_space_characters_def)
  with t have "s \<noteq> []" "0 < length t" by auto
  then show "(drop (length t) s, s) \<in> measure length" by simp
qed

declare skip_white_space.simps [simp del]

text \<open>\<^verbatim>\<open>pattern.split(/\s+/)\<close>: the pieces between the maximal runs of white space.\<close>

function split_white_space :: "string \<Rightarrow> string list" where
  "split_white_space s =
     (let piece = before_white_space s;
          rest = from_white_space s
      in if rest = [] then [piece]
         else piece # split_white_space (skip_white_space rest))"
  by pat_completeness auto
termination
proof (relation "measure length")
  show "wf (measure length)" by simp
next
  fix s piece rest :: string
  assume r: "rest = from_white_space s" and ne: "rest \<noteq> []"
  have shorter: "length (from_white_space u) \<le> length u" for u
    by (induction u) auto
  have ahead: "from_white_space u \<noteq> [] \<Longrightarrow> white_space_ahead (from_white_space u) \<noteq> None"
    for u
    by (induction u) auto
  have skipped: "length (skip_white_space u) \<le> length u" for u
  proof (induction u rule: skip_white_space.induct)
    case (1 u)
    show ?case
    proof (cases "white_space_ahead u")
      case None
      then show ?thesis by (subst skip_white_space.simps) simp
    next
      case (Some t)
      with 1 have "length (skip_white_space (drop (length t) u)) \<le> length (drop (length t) u)"
        by simp
      with Some show ?thesis by (subst skip_white_space.simps) simp
    qed
  qed
  from ahead r ne obtain t where t: "white_space_ahead rest = Some t" by auto
  then have "t \<in> set white_space_characters" and tk: "take (length t) rest = t"
    unfolding white_space_ahead_def find_Some_iff by auto
  then have "t \<noteq> []" by (auto simp: white_space_characters_def)
  with tk have "0 < length t" by auto
  have "length (skip_white_space rest) = length (skip_white_space (drop (length t) rest))"
    using t by (subst skip_white_space.simps) simp
  also have "\<dots> \<le> length (drop (length t) rest)" by (rule skipped)
  also have "\<dots> < length rest" using ne \<open>0 < length t\<close> by simp
  also have "\<dots> \<le> length s" unfolding r by (rule shorter)
  finally show "(skip_white_space rest, s) \<in> measure length" by simp
qed

declare split_white_space.simps [simp del]

text \<open>\<^verbatim>\<open>.replace(/[$()+.?^{|}]/g, "\\$&")\<close>\<close>

definition escape_special :: "string \<Rightarrow> string" where
  "escape_special s =
     concat (map (\<lambda>c. if c \<in> set ''$()+.?^{|}'' then [backslash, c] else [c]) s)"

text \<open>\<^verbatim>\<open>.replace(/\*/g, ".*?")\<close>\<close>

definition replace_wildcards :: "string \<Rightarrow> string" where
  "replace_wildcards s = concat (map (\<lambda>c. if c = CHR ''*'' then ''.*?'' else [c]) s)"

text \<open>
  \<^verbatim>\<open>.replace(/\[([^\]]+)\]/g, "[^/]+")\<close>: an opening bracket, at least one character
  that is not a closing bracket, a closing bracket. The scan goes on after the match.
\<close>

function replace_parameters :: "string \<Rightarrow> string" where
  "replace_parameters [] = []"
| "replace_parameters (c # cs) =
     (let inner = takeWhile (\<lambda>d. d \<noteq> CHR '']'') cs;
          rest = dropWhile (\<lambda>d. d \<noteq> CHR '']'') cs
      in if c = CHR ''['' \<and> inner \<noteq> [] \<and> rest \<noteq> []
         then ''[^/]+'' @ replace_parameters (tl rest)
         else c # replace_parameters cs)"
  by pat_completeness auto
termination
proof (relation "measure length")
  show "wf (measure length)" by simp
next
  fix c :: char and cs inner rest :: string
  assume "rest = dropWhile (\<lambda>d. d \<noteq> CHR '']'') cs"
  then have "length (tl rest) \<le> length cs"
    using length_dropWhile_le [of "\<lambda>d. d \<noteq> CHR '']''" cs] by simp
  then show "(tl rest, c # cs) \<in> measure length" by simp
next
  fix c :: char and cs :: string
  show "(cs, c # cs) \<in> measure length" by simp
qed

text \<open>\<^verbatim>\<open>.replace(/\//g, "\\/")\<close>\<close>

definition escape_slashes :: "string \<Rightarrow> string" where
  "escape_slashes s = concat (map (\<lambda>c. if c = CHR ''/'' then [backslash, c] else [c]) s)"

record ParsedPattern =
  parsed_verb :: string
  parsed_regex :: regexp

text \<open>
  The two first lines of \<^verbatim>\<open>parseRoutePattern\<close>: the pieces that the destructuring
  \<^verbatim>\<open>[verb, path]\<close> reads, and the source that goes to the constructor.
\<close>

definition verb_and_path :: "string \<Rightarrow> string list" where
  "verb_and_path pattern =
     (if string_includes pattern '' '' then split_white_space pattern else [''*'', pattern])"

definition regexp_source :: "string \<Rightarrow> string" where
  "regexp_source path =
     ''^'' @ escape_slashes (replace_parameters (replace_wildcards (escape_special path))) @
     ''$''"

text \<open>
  \<^verbatim>\<open>parseRoutePattern\<close>, over the constructor \<open>new_RegExp\<close>. A missing second piece
  would make \<^verbatim>\<open>path.replace\<close> throw a \<^verbatim>\<open>TypeError\<close>.
\<close>

definition parseRoutePattern ::
  "(string \<Rightarrow> construct_error + regexp) \<Rightarrow> string \<Rightarrow> construct_error + ParsedPattern"
where
  "parseRoutePattern new_RegExp pattern =
     (case verb_and_path pattern of
        verb # path # _ \<Rightarrow>
          (case new_RegExp (regexp_source path) of
             Inl e \<Rightarrow> Inl e
           | Inr regex \<Rightarrow> Inr \<lparr>parsed_verb = toUpperCase verb, parsed_regex = regex\<rparr>)
      | _ \<Rightarrow> Inl TypeError)"

section \<open>Data of the HTTP resource server\<close>

text \<open>
  The interfaces of the source are records and its unions are datatypes. A field name
  that several interfaces share keeps its plain name in one of them and carries a prefix
  in the others. Values that the server only passes on are type variables: \<open>'p\<close> a
  decoded \<^verbatim>\<open>PaymentPayload\<close>, \<open>'x\<close> the extension data of a route, \<open>'b\<close> the body of an
  unpaid response, \<open>'k\<close> a supported kind of the facilitator; \<open>'o\<close>, \<open>'r\<close> and \<open>'d\<close> are
  the fields of a payment option, of a payment requirement and of a
  \<^verbatim>\<open>PaymentRequired\<close> descriptor that the server never reads.
\<close>

record HTTPAdapter =
  getHeader :: "string \<Rightarrow> string option"
  getMethod :: string
  getPath :: string
  getUrl :: string
  getAcceptHeader :: string
  getUserAgent :: string

record HTTPRequestContext =
  adapter :: HTTPAdapter
  path :: string
  "method" :: string
  paymentHeader :: "string option"

record PaywallConfig =
  appName :: "string option"
  appLogo :: "string option"
  sessionTokenEndpoint :: "string option"
  currentUrl :: "string option"
  testnet :: "bool option"

datatype validation_reason = missing_scheme | missing_facilitator

record RouteValidationError =
  routePattern :: string
  error_scheme :: string
  error_network :: string
  reason :: validation_reason
  message :: string

text \<open>
  The fields that \<^verbatim>\<open>processSettlement\<close> reads from a thrown \<^verbatim>\<open>SettleError\<close>, a
  subclass of \<^verbatim>\<open>Error\<close>.
\<close>

record SettleErrorFields =
  settle_error_message :: string
  settle_error_reason :: "string option"
  settle_error_payer :: "string option"
  settle_error_network :: string
  settle_error_transaction :: string

text \<open>What a \<^verbatim>\<open>throw\<close> or a rejected promise carries.\<close>

datatype thrown =
    ThrownError string                                    \<comment> \<open>an \<^verbatim>\<open>Error\<close> with its message\<close>
  | ThrownSettleError SettleErrorFields
  | ThrownRouteConfigurationError "RouteValidationError list"
  | ThrownOther                                           \<comment> \<open>a value that is no \<^verbatim>\<open>Error\<close>\<close>

text \<open>The message of \<^verbatim>\<open>RouteConfigurationError\<close>: a head line and one line per error.\<close>

fun join_lines :: "string list \<Rightarrow> string" where
  "join_lines [] = []"
| "join_lines [l] = l"
| "join_lines (l # m # ls) = l @ [CHR 0x0A] @ join_lines (m # ls)"

definition RouteConfigurationError_message :: "RouteValidationError list \<Rightarrow> string" where
  "RouteConfigurationError_message errors =
     ''x402 Route Configuration Errors:'' @ [CHR 0x0A] @
     join_lines (map (\<lambda>e. ''  - '' @ message e) errors)"

text \<open>\<^verbatim>\<open>error instanceof Error ? error.message : fallback\<close>\<close>

fun message_or :: "thrown \<Rightarrow> string \<Rightarrow> string" where
  "message_or (ThrownError m) fallback = m"
| "message_or (ThrownSettleError e) fallback = settle_error_message e"
| "message_or (ThrownRouteConfigurationError errors) fallback =
     RouteConfigurationError_message errors"
| "message_or ThrownOther fallback = fallback"

text \<open>\<^verbatim>\<open>a || b\<close> for an optional string \<open>a\<close>: absent and empty are both falsy.\<close>

fun or_string :: "string option \<Rightarrow> string \<Rightarrow> string" where
  "or_string None b = b"
| "or_string (Some a) b = (if a = [] then b else a)"

record PaymentOption =
  scheme :: string
  network :: string

datatype 'a one_or_many = One 'a | Many "'a list"

record 'b UnpaidResponseResult =
  contentType :: string
  unpaid_body :: 'b

record ('o, 'x, 'b) RouteConfig =
  accepts :: "'o PaymentOption_scheme one_or_many"
  resource :: "string option"
  description :: "string option"
  mimeType :: "string option"
  customPaywallHtml :: "string option"
  unpaidResponseBody :: "(HTTPRequestContext \<Rightarrow> thrown + 'b UnpaidResponseResult) option"
  extensions :: "'x option"

text \<open>
  \<^verbatim>\<open>RoutesConfig\<close> is the union of a table of patterns and a single route config. The
  source tells them apart by \<^verbatim>\<open>!("accepts" in routes)\<close>; the model has the two
  constructors, and a table with a pattern spelled \<^verbatim>\<open>accepts\<close> is outside of it. The
  table is the list of its entries in the order of \<^verbatim>\<open>Object.entries\<close>.
\<close>

datatype ('o, 'x, 'b) RoutesConfig =
    RouteTable "(string \<times> ('o, 'x, 'b) RouteConfig) list"
  | SingleRoute "('o, 'x, 'b) RouteConfig"

record ('o, 'x, 'b) CompiledRoute =
  verb :: string
  regex :: regexp
  config :: "('o, 'x, 'b) RouteConfig"

record ResourceInfo =
  url :: string
  info_description :: string
  info_mimeType :: string

record PaymentRequirements =
  requirements_network :: string

record 'r PaymentRequired =
  required_accepts :: "'r PaymentRequirements_scheme list"

record VerifyResponse =
  isValid :: bool
  invalidReason :: "string option"

record SettleResponse =
  success :: bool
  errorReason :: "string option"
  payer :: "string option"
  transaction :: string
  settle_network :: string

datatype 'b response_body = Html string | Custom 'b | EmptyObject

record 'b HTTPResponseInstructions =
  status :: nat
  headers :: "(string \<times> string) list"
  body :: "'b response_body option"
  isHtml :: "bool option"

datatype ('p, 'r, 'b) HTTPProcessResult =
    NoPaymentRequired
  | PaymentVerified 'p "'r PaymentRequirements_scheme"
  | PaymentError "'b HTTPResponseInstructions"

text \<open>
  \<^verbatim>\<open>ProcessSettleResultResponse\<close>: the success carries the settle response, the headers
  and the requirements; the failure is a settle response whose \<open>errorReason\<close> is set.
\<close>

datatype 'r ProcessSettleResultResponse =
    ProcessSettleSuccess SettleResponse "(string \<times> string) list" "'r PaymentRequirements_scheme"
  | ProcessSettleFailure SettleResponse

section \<open>Collaborators\<close>

text \<open>
  The class \<^verbatim>\<open>x402ResourceServer\<close> is a parameter: a record of its operations. An
  operation that may throw, or whose promise may reject, answers \<open>Inl\<close> of what it
  throws. \<open>initialize_result\<close> is the outcome of its \<^verbatim>\<open>initialize()\<close>, and
  \<open>hasRegisteredScheme\<close> and \<open>getSupportedKind\<close> answer as they do after it.
\<close>

record ('o, 'x, 'p, 'r, 'd, 'k) x402ResourceServer =
  initialize_result :: "thrown + unit"
  hasRegisteredScheme :: "string \<Rightarrow> string \<Rightarrow> bool"
  getSupportedKind :: "nat \<Rightarrow> string \<Rightarrow> string \<Rightarrow> 'k option"
  buildPaymentRequirementsFromOptions ::
    "'o PaymentOption_scheme list \<Rightarrow> HTTPRequestContext \<Rightarrow>
     thrown + 'r PaymentRequirements_scheme list"
  enrichExtensions :: "'x \<Rightarrow> HTTPRequestContext \<Rightarrow> thrown + 'x"
  createPaymentRequiredResponse ::
    "'r PaymentRequirements_scheme list \<Rightarrow> ResourceInfo \<Rightarrow> string option \<Rightarrow> 'x option \<Rightarrow>
     thrown + ('r, 'd) PaymentRequired_scheme"
  findMatchingRequirements ::
    "'r PaymentRequirements_scheme list \<Rightarrow> 'p \<Rightarrow> thrown + 'r PaymentRequirements_scheme option"
  verifyPayment :: "'p \<Rightarrow> 'r PaymentRequirements_scheme \<Rightarrow> thrown + VerifyResponse"
  settlePayment :: "'p \<Rightarrow> 'r PaymentRequirements_scheme \<Rightarrow> thrown + SettleResponse"

text \<open>
  The imported functions of the sibling modules: the header codec and the protocol
  version. Decoding a header may throw; the two encoders are total functions.
  \<open>defaultPaywallHtml\<close> stands for the last two branches of \<^verbatim>\<open>generatePaywallHTML\<close>
  (the optional package, then the inline page), which format a floating-point amount.
\<close>

record ('p, 'r, 'd) Imports =
  decodePaymentSignatureHeader :: "string \<Rightarrow> thrown + 'p"
  encodePaymentRequiredHeader :: "('r, 'd) PaymentRequired_scheme \<Rightarrow> string"
  encodePaymentResponseHeader :: "SettleResponse \<times> 'r PaymentRequirements_scheme \<Rightarrow> string"
  x402Version :: nat
  defaultPaywallHtml :: "('r, 'd) PaymentRequired_scheme \<Rightarrow> PaywallConfig option \<Rightarrow> string"

record ('r, 'd) PaywallProvider =
  generateHtml :: "('r, 'd) PaymentRequired_scheme \<Rightarrow> PaywallConfig option \<Rightarrow> string"

record ('o, 'x, 'b, 'p, 'r, 'd, 'k) x402HTTPResourceServer =
  ResourceServer :: "('o, 'x, 'p, 'r, 'd, 'k) x402ResourceServer"
  compiledRoutes :: "('o, 'x, 'b) CompiledRoute list"
  routesConfig :: "('o, 'x, 'b) RoutesConfig"
  paywallProvider :: "('r, 'd) PaywallProvider option"

section \<open>Calls, awaits and try/catch\<close>

text \<open>
  A computation of the server ends in a value or in something thrown, and it leaves the
  list of the calls it made to the resource server and to the callbacks of the route.
\<close>

datatype call =
    Call_initialize
  | Call_buildPaymentRequirementsFromOptions
  | Call_enrichExtensions
  | Call_createPaymentRequiredResponse "string option"
  | Call_findMatchingRequirements
  | Call_verifyPayment
  | Call_settlePayment
  | Call_unpaidResponseBody

type_synonym 'a io = "(thrown + 'a) \<times> call list"

definition resolve :: "'a \<Rightarrow> 'a io" where
  "resolve v = (Inr v, [])"

definition throw :: "thrown \<Rightarrow> 'a io" where
  "throw e = (Inl e, [])"

definition call :: "call \<Rightarrow> thrown + 'a \<Rightarrow> 'a io" where
  "call c r = (r, [c])"

definition await :: "'a io \<Rightarrow> ('a \<Rightarrow> 'b io) \<Rightarrow> 'b io" where
  "await m f =
     (case fst m of
        Inl e \<Rightarrow> (Inl e, snd m)
      | Inr v \<Rightarrow> (fst (f v), snd m @ snd (f v)))"

definition try_catch :: "'a io \<Rightarrow> (thrown \<Rightarrow> 'a io) \<Rightarrow> 'a io" where
  "try_catch m handler =
     (case fst m of
        Inl e \<Rightarrow> (fst (handler e), snd m @ snd (handler e))
      | Inr v \<Rightarrow> m)"

section \<open>Construction and route lookup\<close>

fun normalizedRoutes :: "('o, 'x, 'b) RoutesConfig \<Rightarrow> (string \<times> ('o, 'x, 'b) RouteConfig) list" where
  "normalizedRoutes (RouteTable entries) = entries"
| "normalizedRoutes (SingleRoute routeConfig) = [(''*'', routeConfig)]"

text \<open>
  The loop of the constructor, over the constructor of expressions: one compiled route
  per entry, pushed in the order of the entries. A pattern whose regular expression is
  refused makes the constructor throw.
\<close>

fun compile_routes ::
  "(string \<Rightarrow> construct_error + regexp) \<Rightarrow> (string \<times> ('o, 'x, 'b) RouteConfig) list \<Rightarrow>
   construct_error + ('o, 'x, 'b) CompiledRoute list"
where
  "compile_routes new_RegExp [] = Inr []"
| "compile_routes new_RegExp ((pattern, routeConfig) # rest) =
     (case parseRoutePattern new_RegExp pattern of
        Inl e \<Rightarrow> Inl e
      | Inr parsed \<Rightarrow>
          (case compile_routes new_RegExp rest of
             Inl e \<Rightarrow> Inl e
           | Inr compiled \<Rightarrow>
               Inr (\<lparr>verb = parsed_verb parsed, regex = parsed_regex parsed,
                      config = routeConfig\<rparr> # compiled)))"

definition new_x402HTTPResourceServer ::
  "(string \<Rightarrow> construct_error + regexp) \<Rightarrow> ('o, 'x, 'p, 'r, 'd, 'k) x402ResourceServer \<Rightarrow>
   ('o, 'x, 'b) RoutesConfig \<Rightarrow>
   construct_error + ('o, 'x, 'b, 'p, 'r, 'd, 'k) x402HTTPResourceServer"
where
  "new_x402HTTPResourceServer new_RegExp rs routes =
     (case compile_routes new_RegExp (normalizedRoutes routes) of
        Inl e \<Rightarrow> Inl e
      | Inr compiled \<Rightarrow>
          Inr \<lparr>ResourceServer = rs, compiledRoutes = compiled, routesConfig = routes,
               paywallProvider = None\<rparr>)"

definition registerPaywallProvider ::
  "('o, 'x, 'b, 'p, 'r, 'd, 'k) x402HTTPResourceServer \<Rightarrow> ('r, 'd) PaywallProvider \<Rightarrow>
   ('o, 'x, 'b, 'p, 'r, 'd, 'k) x402HTTPResourceServer"
where
  "registerPaywallProvider srv provider = srv\<lparr>paywallProvider := Some provider\<rparr>"

text \<open>The predicate that \<^verbatim>\<open>getRouteConfig\<close> hands to \<^verbatim>\<open>compiledRoutes.find\<close>.\<close>

definition route_matches :: "string \<Rightarrow> string \<Rightarrow> ('o, 'x, 'b) CompiledRoute \<Rightarrow> bool" where
  "route_matches normalizedPath upperMethod route =
     (regex route normalizedPath \<and> (verb route = ''*'' \<or> verb route = upperMethod))"

definition getRouteConfig ::
  "('o, 'x, 'b, 'p, 'r, 'd, 'k) x402HTTPResourceServer \<Rightarrow> string \<Rightarrow> string \<Rightarrow>
   ('o, 'x, 'b) RouteConfig option"
where
  "getRouteConfig srv request_path request_method =
     (let normalizedPath = normalizePath request_path;
          upperMethod = toUpperCase request_method
      in map_option config
           (find (route_matches normalizedPath upperMethod) (compiledRoutes srv)))"

definition requiresPayment ::
  "('o, 'x, 'b, 'p, 'r, 'd, 'k) x402HTTPResourceServer \<Rightarrow> HTTPRequestContext \<Rightarrow> bool"
where
  "requiresPayment srv context = (getRouteConfig srv (path context) (method context) \<noteq> None)"

section \<open>Payment options, proof extraction, response composition\<close>

text \<open>\<^verbatim>\<open>Array.isArray(routeConfig.accepts) ? routeConfig.accepts : [routeConfig.accepts]\<close>\<close>

definition normalizePaymentOptions ::
  "('o, 'x, 'b) RouteConfig \<Rightarrow> 'o PaymentOption_scheme list"
where
  "normalizePaymentOptions routeConfig =
     (case accepts routeConfig of Many options \<Rightarrow> options | One option \<Rightarrow> [option])"

text \<open>
  \<^verbatim>\<open>extractPayment\<close>: the header under either spelling, \<^verbatim>\<open>||\<close> taking the second when
  the first is absent or empty; an absent or empty header, and a header whose decoding
  throws, both give \<^verbatim>\<open>null\<close>. A decoded payload is an object, so it is never falsy.
\<close>

definition payment_signature_header :: "HTTPAdapter \<Rightarrow> string option" where
  "payment_signature_header a =
     (case getHeader a ''payment-signature'' of
        None \<Rightarrow> getHeader a ''PAYMENT-SIGNATURE''
      | Some h \<Rightarrow> if h = [] then getHeader a ''PAYMENT-SIGNATURE'' else Some h)"

definition extractPayment :: "('p, 'r, 'd) Imports \<Rightarrow> HTTPAdapter \<Rightarrow> 'p option" where
  "extractPayment M a =
     (case payment_signature_header a of
        None \<Rightarrow> None
      | Some header \<Rightarrow>
          if header = [] then None
          else (case decodePaymentSignatureHeader M header of
                  Inl error \<Rightarrow> None
                | Inr payload \<Rightarrow> Some payload))"

definition isWebBrowser :: "HTTPAdapter \<Rightarrow> bool" where
  "isWebBrowser a =
     (let accept = getAcceptHeader a; userAgent = getUserAgent a
      in string_includes accept ''text/html'' \<and> string_includes userAgent ''Mozilla'')"

definition generatePaywallHTML ::
  "('p, 'r, 'd) Imports \<Rightarrow> ('o, 'x, 'b, 'p, 'r, 'd, 'k) x402HTTPResourceServer \<Rightarrow>
   ('r, 'd) PaymentRequired_scheme \<Rightarrow> PaywallConfig option \<Rightarrow> string option \<Rightarrow> string"
where
  "generatePaywallHTML M srv paymentRequired paywallConfig customHtml =
     (let otherwise =
            (case paywallProvider srv of
               Some provider \<Rightarrow> generateHtml provider paymentRequired paywallConfig
             | None \<Rightarrow> defaultPaywallHtml M paymentRequired paywallConfig)
      in case customHtml of
           None \<Rightarrow> otherwise
         | Some html \<Rightarrow> if html = [] then otherwise else html)"

definition createHTTPPaymentRequiredResponse ::
  "('p, 'r, 'd) Imports \<Rightarrow> ('r, 'd) PaymentRequired_scheme \<Rightarrow> (string \<times> string) list"
where
  "createHTTPPaymentRequiredResponse M paymentRequired =
     [(''PAYMENT-REQUIRED'', encodePaymentRequiredHeader M paymentRequired)]"

definition createHTTPResponse ::
  "('p, 'r, 'd) Imports \<Rightarrow> ('o, 'x, 'b, 'p, 'r, 'd, 'k) x402HTTPResourceServer \<Rightarrow>
   ('r, 'd) PaymentRequired_scheme \<Rightarrow> bool \<Rightarrow> PaywallConfig option \<Rightarrow> string option \<Rightarrow>
   'b UnpaidResponseResult option \<Rightarrow> 'b HTTPResponseInstructions"
where
  "createHTTPResponse M srv paymentRequired browser paywallConfig customHtml unpaidResponse =
     (if browser then
        \<lparr>status = 402, headers = [(''Content-Type'', ''text/html'')],
         body = Some (Html (generatePaywallHTML M srv paymentRequired paywallConfig customHtml)),
         isHtml = Some True\<rparr>
      else
        \<lparr>status = 402,
         headers =
           (''Content-Type'',
            (case unpaidResponse of
               Some r \<Rightarrow> contentType r | None \<Rightarrow> ''application/json'')) #
           createHTTPPaymentRequiredResponse M paymentRequired,
         body =
           Some (case unpaidResponse of Some r \<Rightarrow> Custom (unpaid_body r) | None \<Rightarrow> EmptyObject),
         isHtml = None\<rparr>)"

definition createSettlementHeaders ::
  "('p, 'r, 'd) Imports \<Rightarrow> SettleResponse \<Rightarrow> 'r PaymentRequirements_scheme \<Rightarrow>
   (string \<times> string) list"
where
  "createSettlementHeaders M settleResponse requirements =
     [(''PAYMENT-RESPONSE'', encodePaymentResponseHeader M (settleResponse, requirements))]"

section \<open>processHTTPRequest\<close>

text \<open>
  \<^verbatim>\<open>processHTTPRequest\<close> in named parts, in the order of its text. \<open>resourceInfo\<close> is
  the object of that name. \<open>enrichedExtensions\<close> is the variable \<^verbatim>\<open>extensions\<close> after
  the optional enrichment. \<open>unpaidBody\<close> is the constant of that name, the awaited
  result of the route's generator. \<open>verifyPaymentBlock\<close> is the \<^verbatim>\<open>try\<close> with its
  \<^verbatim>\<open>catch\<close>: the matching and the verification with their two error responses, and the
  handler that builds a third descriptor from the message of what was thrown.
  \<open>processGatedRequest\<close> is the body after the route lookup has found a config, and
  \<open>processHTTPRequest\<close> is the lookup with the early return. The calls before the
  \<^verbatim>\<open>try\<close> stand outside of it, so what they throw leaves the function.
\<close>

definition resourceInfo :: "('o, 'x, 'b) RouteConfig \<Rightarrow> HTTPRequestContext \<Rightarrow> ResourceInfo" where
  "resourceInfo routeConfig context =
     \<lparr>url = or_string (resource routeConfig) (getUrl (adapter context)),
      info_description = or_string (description routeConfig) [],
      info_mimeType = or_string (mimeType routeConfig) []\<rparr>"

definition enrichedExtensions ::
  "('o, 'x, 'b, 'p, 'r, 'd, 'k) x402HTTPResourceServer \<Rightarrow> ('o, 'x, 'b) RouteConfig \<Rightarrow>
   HTTPRequestContext \<Rightarrow> 'x option io"
where
  "enrichedExtensions srv routeConfig context =
     (case extensions routeConfig of
        None \<Rightarrow> resolve None
      | Some declared \<Rightarrow>
          await (call Call_enrichExtensions
                   (enrichExtensions (ResourceServer srv) declared context))
            (\<lambda>enriched. resolve (Some enriched)))"

definition unpaidBody ::
  "('o, 'x, 'b) RouteConfig \<Rightarrow> HTTPRequestContext \<Rightarrow> 'b UnpaidResponseResult option io"
where
  "unpaidBody routeConfig context =
     (case unpaidResponseBody routeConfig of
        None \<Rightarrow> resolve None
      | Some generator \<Rightarrow>
          await (call Call_unpaidResponseBody (generator context))
            (\<lambda>unpaid. resolve (Some unpaid)))"

definition verifyPaymentBlock ::
  "('p, 'r, 'd) Imports \<Rightarrow> ('o, 'x, 'b, 'p, 'r, 'd, 'k) x402HTTPResourceServer \<Rightarrow>
   ('o, 'x, 'b) RouteConfig \<Rightarrow> PaywallConfig option \<Rightarrow> 'r PaymentRequirements_scheme list \<Rightarrow>
   ResourceInfo \<Rightarrow> ('r, 'd) PaymentRequired_scheme \<Rightarrow> 'p \<Rightarrow>
   ('p, 'r, 'b) HTTPProcessResult io"
where
  "verifyPaymentBlock M srv routeConfig paywallConfig requirements info paymentRequired
      paymentPayload =
     try_catch
       (await (call Call_findMatchingRequirements
                 (findMatchingRequirements (ResourceServer srv)
                    (required_accepts paymentRequired) paymentPayload))
          (\<lambda>matchingRequirements.
             case matchingRequirements of
               None \<Rightarrow>
                 await (call (Call_createPaymentRequiredResponse
                                (Some ''No matching payment requirements''))
                          (createPaymentRequiredResponse (ResourceServer srv) requirements info
                             (Some ''No matching payment requirements'')
                             (extensions routeConfig)))
                   (\<lambda>errorResponse.
                      resolve (PaymentError
                        (createHTTPResponse M srv errorResponse False paywallConfig None None)))
             | Some matching \<Rightarrow>
                 await (call Call_verifyPayment
                          (verifyPayment (ResourceServer srv) paymentPayload matching))
                   (\<lambda>verifyResult.
                      if \<not> isValid verifyResult then
                        await (call (Call_createPaymentRequiredResponse
                                       (invalidReason verifyResult))
                                 (createPaymentRequiredResponse (ResourceServer srv)
                                    requirements info (invalidReason verifyResult)
                                    (extensions routeConfig)))
                          (\<lambda>errorResponse.
                             resolve (PaymentError
                               (createHTTPResponse M srv errorResponse False paywallConfig
                                  None None)))
                      else resolve (PaymentVerified paymentPayload matching))))
       (\<lambda>error.
          await (call (Call_createPaymentRequiredResponse
                         (Some (message_or error ''Payment verification failed'')))
                   (createPaymentRequiredResponse (ResourceServer srv) requirements info
                      (Some (message_or error ''Payment verification failed''))
                      (extensions routeConfig)))
            (\<lambda>errorResponse.
               resolve (PaymentError
                 (createHTTPResponse M srv errorResponse False paywallConfig None None))))"

definition processGatedRequest ::
  "('p, 'r, 'd) Imports \<Rightarrow> ('o, 'x, 'b, 'p, 'r, 'd, 'k) x402HTTPResourceServer \<Rightarrow>
   ('o, 'x, 'b) RouteConfig \<Rightarrow> HTTPRequestContext \<Rightarrow> PaywallConfig option \<Rightarrow>
   ('p, 'r, 'b) HTTPProcessResult io"
where
  "processGatedRequest M srv routeConfig context paywallConfig =
     (let paymentOptions = normalizePaymentOptions routeConfig;
          paymentPayload = extractPayment M (adapter context)
      in
      await (call Call_buildPaymentRequirementsFromOptions
               (buildPaymentRequirementsFromOptions (ResourceServer srv)
                  paymentOptions context))
        (\<lambda>requirements.
      await (enrichedExtensions srv routeConfig context)
        (\<lambda>extensions.
      await (call (Call_createPaymentRequiredResponse
                     (if paymentPayload = None then Some ''Payment required'' else None))
               (createPaymentRequiredResponse (ResourceServer srv) requirements
                  (resourceInfo routeConfig context)
                  (if paymentPayload = None then Some ''Payment required'' else None)
                  extensions))
        (\<lambda>paymentRequired.
      case paymentPayload of
        None \<Rightarrow>
          await (unpaidBody routeConfig context)
            (\<lambda>unpaid.
               resolve (PaymentError
                 (createHTTPResponse M srv paymentRequired (isWebBrowser (adapter context))
                    paywallConfig (customPaywallHtml routeConfig) unpaid)))
      | Some payload \<Rightarrow>
          verifyPaymentBlock M srv routeConfig paywallConfig requirements
            (resourceInfo routeConfig context) paymentRequired payload))))"

definition processHTTPRequest ::
  "('p, 'r, 'd) Imports \<Rightarrow> ('o, 'x, 'b, 'p, 'r, 'd, 'k) x402HTTPResourceServer \<Rightarrow>
   HTTPRequestContext \<Rightarrow> PaywallConfig option \<Rightarrow> ('p, 'r, 'b) HTTPProcessResult io"
where
  "processHTTPRequest M srv context paywallConfig =
     (case getRouteConfig srv (path context) (method context) of
        None \<Rightarrow> resolve NoPaymentRequired
      | Some routeConfig \<Rightarrow> processGatedRequest M srv routeConfig context paywallConfig)"

section \<open>processSettlement\<close>

definition processSettlement ::
  "('p, 'r, 'd) Imports \<Rightarrow> ('o, 'x, 'b, 'p, 'r, 'd, 'k) x402HTTPResourceServer \<Rightarrow>
   'p \<Rightarrow> 'r PaymentRequirements_scheme \<Rightarrow> 'r ProcessSettleResultResponse io"
where
  "processSettlement M srv paymentPayload requirements =
     try_catch
       (await (call Call_settlePayment
                 (settlePayment (ResourceServer srv) paymentPayload requirements))
          (\<lambda>settleResponse.
             if \<not> success settleResponse then
               resolve (ProcessSettleFailure
                 (settleResponse
                    \<lparr>success := False,
                     errorReason :=
                       Some (or_string (errorReason settleResponse) ''Settlement failed'')\<rparr>))
             else
               resolve (ProcessSettleSuccess (settleResponse\<lparr>success := True\<rparr>)
                 (createSettlementHeaders M settleResponse requirements) requirements)))
       (\<lambda>error.
          case error of
            ThrownSettleError e \<Rightarrow>
              resolve (ProcessSettleFailure
                \<lparr>success = False,
                 errorReason =
                   Some (or_string (settle_error_reason e) (settle_error_message e)),
                 payer = settle_error_payer e,
                 transaction = settle_error_transaction e,
                 settle_network = settle_error_network e\<rparr>)
          | _ \<Rightarrow>
              resolve (ProcessSettleFailure
                \<lparr>success = False,
                 errorReason = Some (message_or error ''Settlement failed''),
                 payer = None,
                 transaction = [],
                 settle_network = requirements_network requirements\<rparr>))"

section \<open>Startup validation\<close>

definition quoted :: "string \<Rightarrow> string" where
  "quoted s = [CHR 0x22] @ s @ [CHR 0x22]"

definition missing_scheme_error :: "string \<Rightarrow> 'o PaymentOption_scheme \<Rightarrow> RouteValidationError" where
  "missing_scheme_error pattern option =
     \<lparr>routePattern = pattern, error_scheme = scheme option, error_network = network option,
      reason = missing_scheme,
      message =
        ''Route '' @ quoted pattern @ '': No scheme implementation registered for '' @
        quoted (scheme option) @ '' on network '' @ quoted (network option)\<rparr>"

definition missing_facilitator_error ::
  "string \<Rightarrow> 'o PaymentOption_scheme \<Rightarrow> RouteValidationError"
where
  "missing_facilitator_error pattern option =
     \<lparr>routePattern = pattern, error_scheme = scheme option, error_network = network option,
      reason = missing_facilitator,
      message =
        ''Route '' @ quoted pattern @ '': Facilitator does not support scheme '' @
        quoted (scheme option) @ '' on network '' @ quoted (network option)\<rparr>"

text \<open>
  The inner loop of \<^verbatim>\<open>validateRouteConfiguration\<close> over the options of one route, with
  the array \<open>errors\<close> it pushes to. The \<^verbatim>\<open>continue\<close> after a missing scheme skips the
  facilitator check of that option.
\<close>

fun validate_options ::
  "nat \<Rightarrow> ('o, 'x, 'p, 'r, 'd, 'k) x402ResourceServer \<Rightarrow> string \<Rightarrow>
   'o PaymentOption_scheme list \<Rightarrow> RouteValidationError list \<Rightarrow> RouteValidationError list"
where
  "validate_options version rs pattern [] errors = errors"
| "validate_options version rs pattern (option # rest) errors =
     (if \<not> hasRegisteredScheme rs (network option) (scheme option)
      then validate_options version rs pattern rest
             (errors @ [missing_scheme_error pattern option])
      else (case getSupportedKind rs version (network option) (scheme option) of
              None \<Rightarrow>
                validate_options version rs pattern rest
                  (errors @ [missing_facilitator_error pattern option])
            | Some supportedKind \<Rightarrow> validate_options version rs pattern rest errors))"

text \<open>The outer loop over the routes.\<close>

fun validate_routes ::
  "nat \<Rightarrow> ('o, 'x, 'p, 'r, 'd, 'k) x402ResourceServer \<Rightarrow>
   (string \<times> ('o, 'x, 'b) RouteConfig) list \<Rightarrow> RouteValidationError list \<Rightarrow>
   RouteValidationError list"
where
  "validate_routes version rs [] errors = errors"
| "validate_routes version rs ((pattern, routeConfig) # rest) errors =
     validate_routes version rs rest
       (validate_options version rs pattern (normalizePaymentOptions routeConfig) errors)"

definition validateRouteConfiguration ::
  "('p, 'r, 'd) Imports \<Rightarrow> ('o, 'x, 'b, 'p, 'r, 'd, 'k) x402HTTPResourceServer \<Rightarrow>
   RouteValidationError list"
where
  "validateRouteConfiguration M srv =
     validate_routes (x402Version M) (ResourceServer srv)
       (normalizedRoutes (routesConfig srv)) []"

definition initialize ::
  "('p, 'r, 'd) Imports \<Rightarrow> ('o, 'x, 'b, 'p, 'r, 'd, 'k) x402HTTPResourceServer \<Rightarrow> unit io"
where
  "initialize M srv =
     await (call Call_initialize (initialize_result (ResourceServer srv)))
       (\<lambda>initialized.
          let errors = validateRouteConfiguration M srv
          in if errors \<noteq> [] then throw (ThrownRouteConfigurationError errors)
             else resolve ())"

section \<open>A specification of the startup check\<close>

text \<open>
  What the specification asks of startup validation, in its own words: for every
  declared route and every payment option on it, verify (a) that a scheme implementation
  is registered for the option's scheme and network and (b) that the facilitator
  advertises support for that scheme, network and protocol version; both checks run
  for all routes and options. So an option gives a \<open>missing_scheme\<close> violation when (a)
  fails and a \<open>missing_facilitator\<close> violation when (b) fails, and both when both fail.
\<close>

definition specified_option_violations ::
  "nat \<Rightarrow> ('o, 'x, 'p, 'r, 'd, 'k) x402ResourceServer \<Rightarrow> string \<Rightarrow>
   'o PaymentOption_scheme \<Rightarrow> RouteValidationError list"
where
  "specified_option_violations version rs pattern option =
     (if hasRegisteredScheme rs (network option) (scheme option) then []
      else [missing_scheme_error pattern option]) @
     (if getSupportedKind rs version (network option) (scheme option) = None
      then [missing_facilitator_error pattern option]
      else [])"

definition specified_violations ::
  "nat \<Rightarrow> ('o, 'x, 'p, 'r, 'd, 'k) x402ResourceServer \<Rightarrow>
   (string \<times> ('o, 'x, 'b) RouteConfig) list \<Rightarrow> RouteValidationError list"
where
  "specified_violations version rs routes =
     concat (map (\<lambda>entry.
                    concat (map (specified_option_violations version rs (fst entry))
                              (normalizePaymentOptions (snd entry))))
               routes)"

text \<open>
  The verb a route pattern declares, as the data model describes it: the text before
  the first white space, and any verb when the pattern has no space.
\<close>

definition declared_verb :: "string \<Rightarrow> string" where
  "declared_verb pattern =
     (if string_includes pattern '' '' then hd (split_white_space pattern) else ''*'')"

section \<open>Auxiliary notions of the proofs\<close>

text \<open>A path in which no two separators are adjacent.\<close>

fun no_double_slash :: "string \<Rightarrow> bool" where
  "no_double_slash (c # d # cs) =
     (\<not> (c = CHR ''/'' \<and> d = CHR ''/'') \<and> no_double_slash (d # cs))"
| "no_double_slash cs = True"

section \<open>An example deployment\<close>

text \<open>
  A small resource server on which the theorems are exercised. A payment proof is the
  header \<^verbatim>\<open>sig:\<close> followed by the network it pays on; a descriptor carries the
  requirements on offer and, besides, the reason it was built with.
\<close>

definition demo_adapter :: "string option \<Rightarrow> string \<Rightarrow> string \<Rightarrow> HTTPAdapter" where
  "demo_adapter header accept userAgent =
     \<lparr>getHeader = (\<lambda>name. if name = ''payment-signature'' then header else None),
      getMethod = ''GET'', getPath = ''/api/data'',
      getUrl = ''https://example.test/api/data'',
      getAcceptHeader = accept, getUserAgent = userAgent\<rparr>"

definition demo_context :: "string option \<Rightarrow> string \<Rightarrow> string \<Rightarrow> HTTPRequestContext" where
  "demo_context header accept userAgent =
     \<lparr>adapter = demo_adapter header accept userAgent, path = ''/api/data?fresh=1'',
      method = ''get'', paymentHeader = header\<rparr>"

definition demo_option :: "string \<Rightarrow> string \<Rightarrow> PaymentOption" where
  "demo_option s n = \<lparr>scheme = s, network = n\<rparr>"

definition demo_route ::
  "PaymentOption one_or_many \<Rightarrow>
   (HTTPRequestContext \<Rightarrow> thrown + string UnpaidResponseResult) option \<Rightarrow>
   (unit, string, string) RouteConfig"
where
  "demo_route options generator =
     \<lparr>accepts = options, resource = None, description = Some ''market data'',
      mimeType = None, customPaywallHtml = None, unpaidResponseBody = generator,
      extensions = None\<rparr>"

definition demo_authority ::
  "(unit, string, string, unit, string option, unit) x402ResourceServer"
where
  "demo_authority =
     \<lparr>initialize_result = Inr (),
      hasRegisteredScheme = (\<lambda>n s. s = ''exact''),
      getSupportedKind = (\<lambda>v n s. if take 7 n = ''eip155:'' then Some () else None),
      buildPaymentRequirementsFromOptions =
        (\<lambda>options context. Inr (map (\<lambda>option. \<lparr>requirements_network = network option\<rparr>) options)),
      enrichExtensions = (\<lambda>declared context. Inr declared),
      createPaymentRequiredResponse =
        (\<lambda>requirements info why declared. Inr \<lparr>required_accepts = requirements, \<dots> = why\<rparr>),
      findMatchingRequirements =
        (\<lambda>requirements payload.
           Inr (find (\<lambda>r. requirements_network r = payload) requirements)),
      verifyPayment = (\<lambda>payload requirements. Inr \<lparr>isValid = True, invalidReason = None\<rparr>),
      settlePayment =
        (\<lambda>payload requirements.
           Inr \<lparr>success = True, errorReason = None, payer = Some ''0xpayer'',
                transaction = ''0xtx'', settle_network = requirements_network requirements\<rparr>)\<rparr>"

definition demo_imports :: "(string, unit, string option) Imports" where
  "demo_imports =
     \<lparr>decodePaymentSignatureHeader =
        (\<lambda>header. if take 4 header = ''sig:'' then Inr (drop 4 header)
                  else Inl (ThrownError ''Invalid payment header'')),
      encodePaymentRequiredHeader =
        (\<lambda>paymentRequired. ''required:'' @ or_string (PaymentRequired.more paymentRequired) []),
      encodePaymentResponseHeader =
        (\<lambda>(settleResponse, requirements).
           ''settled:'' @ transaction settleResponse @ ''@'' @ requirements_network requirements),
      x402Version = 2,
      defaultPaywallHtml = (\<lambda>paymentRequired paywallConfig. ''<h1>Payment Required</h1>'')\<rparr>"

definition demo_server ::
  "(unit, string, string) RoutesConfig \<Rightarrow>
   (unit, string, string) CompiledRoute list \<Rightarrow>
   (unit, string, string, string, unit, string option, unit) x402HTTPResourceServer"
where
  "demo_server routes compiled =
     \<lparr>ResourceServer = demo_authority, compiledRoutes = compiled, routesConfig = routes,
      paywallProvider = None\<rparr>"

text \<open>
  Two routes that overlap on \<^verbatim>\<open>/api/data\<close>: the wildcard route is declared first.
\<close>

definition demo_wildcard_route :: "(unit, string, string) RouteConfig" where
  "demo_wildcard_route =
     demo_route (Many [demo_option ''exact'' ''eip155:8453'',
                       demo_option ''exact'' ''eip155:84532'']) None"

definition demo_data_route :: "(unit, string, string) RouteConfig" where
  "demo_data_route = demo_route (One (demo_option ''exact'' ''eip155:1'')) None"

definition demo_table :: "(unit, string, string) RoutesConfig" where
  "demo_table =
     RouteTable [(''/api/*'', demo_wildcard_route), (''GET /api/data'', demo_data_route)]"

definition demo_compiled :: "(unit, string, string) CompiledRoute list" where
  "demo_compiled =
     [\<lparr>verb = ''*'',
       regex = test [Lit CHR ''/'', Lit CHR ''a'', Lit CHR ''p'', Lit CHR ''i'', Lit CHR ''/'',
                DotStarLazy],
       config = demo_wildcard_route\<rparr>,
      \<lparr>verb = ''GET'',
       regex = test [Lit CHR ''/'', Lit CHR ''a'', Lit CHR ''p'', Lit CHR ''i'', Lit CHR ''/'',
                Lit CHR ''d'', Lit CHR ''a'', Lit CHR ''t'', Lit CHR ''a''],
       config = demo_data_route\<rparr>]"

text \<open>
  A table with three misconfigured options on two routes, after a route that is in
  order: no scheme \<^verbatim>\<open>upto\<close> is registered, and the facilitator supports no network of
  the \<^verbatim>\<open>solana\<close> family.
\<close>

definition demo_misconfigured_table :: "(unit, string, string) RoutesConfig" where
  "demo_misconfigured_table =
     RouteTable
       [(''/api/*'', demo_wildcard_route),
        (''GET /api/data'',
         demo_route (Many [demo_option ''upto'' ''eip155:8453'',
                           demo_option ''exact'' ''solana:mainnet'']) None),
        (''/items/[id]'', demo_route (One (demo_option ''upto'' ''solana:mainnet'')) None)]"

definition demo_misconfigured_compiled :: "(unit, string, string) CompiledRoute list" where
  "demo_misconfigured_compiled =
     [\<lparr>verb = ''*'',
       regex = test [Lit CHR ''/'', Lit CHR ''a'', Lit CHR ''p'', Lit CHR ''i'', Lit CHR ''/'',
                DotStarLazy],
       config = demo_wildcard_route\<rparr>,
      \<lparr>verb = ''GET'',
       regex = test [Lit CHR ''/'', Lit CHR ''a'', Lit CHR ''p'', Lit CHR ''i'', Lit CHR ''/'',
                Lit CHR ''d'', Lit CHR ''a'', Lit CHR ''t'', Lit CHR ''a''],
       config = demo_route (Many [demo_option ''upto'' ''eip155:8453'',
                                  demo_option ''exact'' ''solana:mainnet'']) None\<rparr>,
      \<lparr>verb = ''*'',
       regex = test [Lit CHR ''/'', Lit CHR ''i'', Lit CHR ''t'', Lit CHR ''e'', Lit CHR ''m'',
                Lit CHR ''s'', Lit CHR ''/'', NotSlashPlus],
       config = demo_route (One (demo_option ''upto'' ''solana:mainnet'')) None\<rparr>]"

text \<open>The errors that the startup check reports on that table, written out.\<close>

definition demo_reported :: "RouteValidationError list" where
  "demo_reported =
     [\<lparr>routePattern = ''GET /api/data'', error_scheme = ''upto'',
       error_network = ''eip155:8453'', reason = missing_scheme,
       message =
         ''Route '' @ [CHR 0x22] @ ''GET /api/data'' @ [CHR 0x22] @
         '': No scheme implementation registered for '' @ [CHR 0x22] @ ''upto'' @
         [CHR 0x22] @ '' on network '' @ [CHR 0x22] @ ''eip155:8453'' @ [CHR 0x22]\<rparr>,
      \<lparr>routePattern = ''GET /api/data'', error_scheme = ''exact'',
       error_network = ''solana:mainnet'', reason = missing_facilitator,
       message =
         ''Route '' @ [CHR 0x22] @ ''GET /api/data'' @ [CHR 0x22] @
         '': Facilitator does not support scheme '' @ [CHR 0x22] @ ''exact'' @
         [CHR 0x22] @ '' on network '' @ [CHR 0x22] @ ''solana:mainnet'' @ [CHR 0x22]\<rparr>,
      \<lparr>routePattern = ''/items/[id]'', error_scheme = ''upto'',
       error_network = ''solana:mainnet'', reason = missing_scheme,
       message =
         ''Route '' @ [CHR 0x22] @ ''/items/[id]'' @ [CHR 0x22] @
         '': No scheme implementation registered for '' @ [CHR 0x22] @ ''upto'' @
         [CHR 0x22] @ '' on network '' @ [CHR 0x22] @ ''solana:mainnet'' @ [CHR 0x22]\<rparr>]"

text \<open>
  The deployment of the overlapping table over a given resource server, and two routes
  with a generator of the unpaid response: one that returns a preview, one that throws.
\<close>

definition demo_gateway ::
  "(unit, string, string, unit, string option, unit) x402ResourceServer \<Rightarrow>
   (unit, string, string, string, unit, string option, unit) x402HTTPResourceServer"
where
  "demo_gateway rs =
     \<lparr>ResourceServer = rs, compiledRoutes = demo_compiled, routesConfig = demo_table,
      paywallProvider = None\<rparr>"

definition demo_preview_route :: "(unit, string, string) RouteConfig" where
  "demo_preview_route =
     demo_route (One (demo_option ''exact'' ''eip155:8453''))
       (Some (\<lambda>context. Inr \<lparr>contentType = ''text/plain'', unpaid_body = ''preview''\<rparr>))"

definition demo_throwing_route :: "(unit, string, string) RouteConfig" where
  "demo_throwing_route =
     demo_route (One (demo_option ''exact'' ''eip155:8453''))
       (Some (\<lambda>context. Inl (ThrownError ''preview unavailable'')))"

section \<open>Facts about path normalization\<close>

lemma uri_tokens_no_percent: "CHR ''%'' \<notin> set s \<Longrightarrow> uri_tokens s = Some (map Raw s)"
  by (induction s) auto

lemma decode_tokens_raw: "decode_tokens (map Raw s) = Some s"
  by (induction s) auto

lemma decodeURIComponent_no_percent: "CHR ''%'' \<notin> set s \<Longrightarrow> decodeURIComponent s = Some s"
  by (simp add: decodeURIComponent_def uri_tokens_no_percent decode_tokens_raw)

lemma before_query_id:
  "CHR ''?'' \<notin> set s \<Longrightarrow> CHR ''#'' \<notin> set s \<Longrightarrow> before_query s = s"
  unfolding before_query_def by (rule takeWhile_eq_all_conv [THEN iffD2]) auto

lemma before_query_set:
  "CHR ''?'' \<notin> set (before_query s)" "CHR ''#'' \<notin> set (before_query s)"
  "set (before_query s) \<subseteq> set s"
  unfolding before_query_def by (auto dest: set_takeWhileD)

lemma set_backslashes_to_slashes:
  "set (backslashes_to_slashes s) \<subseteq> insert (CHR ''/'') (set s)"
  "backslash \<notin> set (backslashes_to_slashes s)"
  by (auto simp: backslashes_to_slashes_def backslash_def)

lemma backslashes_to_slashes_id: "backslash \<notin> set s \<Longrightarrow> backslashes_to_slashes s = s"
  by (induction s) (auto simp: backslashes_to_slashes_def)

lemma set_collapse_slashes: "set (collapse_slashes s) \<subseteq> set s"
  by (induction s rule: collapse_slashes.induct) (auto dest: set_dropWhileD)

lemma collapse_slashes_Nil: "collapse_slashes s = [] \<longleftrightarrow> s = []"
  by (cases s) auto

lemma hd_collapse_slashes: "s \<noteq> [] \<Longrightarrow> hd (collapse_slashes s) = hd s"
  by (cases s) auto

lemma no_double_slash_Cons:
  "no_double_slash (c # s) \<longleftrightarrow>
     (s = [] \<or> (\<not> (c = CHR ''/'' \<and> hd s = CHR ''/'') \<and> no_double_slash s))"
  by (cases s) auto

lemma no_double_slash_collapse: "no_double_slash (collapse_slashes s)"
proof (induction s rule: collapse_slashes.induct)
  case 1
  show ?case by simp
next
  case (2 c cs)
  show ?case
  proof (cases "c = CHR ''/''")
    case True
    let ?t = "dropWhile (\<lambda>d. d = CHR ''/'') cs"
    have ih: "no_double_slash (collapse_slashes ?t)" using True 2 by simp
    show ?thesis
    proof (cases "?t = []")
      case True
      with \<open>c = CHR ''/''\<close> show ?thesis by (simp del: dropWhile_eq_Nil_conv)
    next
      case False
      then have "hd ?t \<noteq> CHR ''/''" by (rule hd_dropWhile)
      then have "hd (collapse_slashes ?t) \<noteq> CHR ''/''"
        using hd_collapse_slashes [OF False] by metis
      with ih \<open>c = CHR ''/''\<close> show ?thesis
        by (simp add: no_double_slash_Cons del: dropWhile_eq_Nil_conv)
    qed
  next
    case False
    with 2 show ?thesis by (simp add: no_double_slash_Cons)
  qed
qed

lemma collapse_slashes_id: "no_double_slash s \<Longrightarrow> collapse_slashes s = s"
proof (induction s rule: collapse_slashes.induct)
  case 1
  show ?case by simp
next
  case (2 c cs)
  then show ?case by (cases cs) auto
qed

lemma no_double_slash_append_left: "no_double_slash (u @ v) \<Longrightarrow> no_double_slash u"
  by (induction u rule: no_double_slash.induct) auto

lemma no_double_slash_middle:
  "no_double_slash (u @ c # d # v) \<Longrightarrow> \<not> (c = CHR ''/'' \<and> d = CHR ''/'')"
  by (induction u rule: no_double_slash.induct) (auto simp: no_double_slash_Cons)

lemma lazy_group_Some:
  "lazy_group s = Some g \<Longrightarrow>
     \<exists>t. s = g @ t \<and> t \<noteq> [] \<and> list_all (\<lambda>d. d = CHR ''/'') t \<and> g \<noteq> []"
  by (induction s arbitrary: g) (auto split: if_splits)

lemma character_width_positive: "0 < character_width s"
  by (simp add: character_width_def line_terminator_ahead_def line_terminators_def)

lemma line_terminator_ahead_Some:
  "line_terminator_ahead s = Some t \<Longrightarrow>
     is_line_terminator t \<and> take (length t) s = t \<and> character_width s = length t"
proof -
  assume ahead: "line_terminator_ahead s = Some t"
  then have "character_width s = length t" by (simp add: character_width_def)
  moreover from ahead have "t \<in> set line_terminators \<and> take (length t) s = t"
    unfolding line_terminator_ahead_def find_Some_iff by auto
  ultimately show ?thesis by (simp add: is_line_terminator_def)
qed

lemma last_line_terminator: "is_line_terminator t \<Longrightarrow> t \<noteq> [] \<and> last t \<noteq> CHR ''/''"
  by (auto simp: is_line_terminator_def line_terminators_def)

lemma strip_trailing_slashes_None:
  "s \<noteq> [] \<Longrightarrow> lazy_group s = None \<Longrightarrow>
     strip_trailing_slashes s =
       take (character_width s) s @ strip_trailing_slashes (drop (character_width s) s)"
  by (subst strip_trailing_slashes.simps) simp

lemma strip_trailing_slashes_Some:
  "lazy_group s = Some g \<Longrightarrow> strip_trailing_slashes s = g"
  by (subst strip_trailing_slashes.simps) auto

lemma strip_trailing_slashes_empty [simp]: "strip_trailing_slashes [] = []"
  by (subst strip_trailing_slashes.simps) simp

lemma strip_trailing_slashes_prefix:
  "\<exists>t. s = strip_trailing_slashes s @ t \<and> list_all (\<lambda>d. d = CHR ''/'') t"
proof (induction s rule: strip_trailing_slashes.induct)
  case (1 s)
  show ?case
  proof (cases "s = []")
    case True
    then show ?thesis by simp
  next
    case False
    show ?thesis
    proof (cases "lazy_group s")
      case None
      from 1 [OF False None] obtain t where
        t: "drop (character_width s) s =
              strip_trailing_slashes (drop (character_width s) s) @ t"
          "list_all (\<lambda>d. d = CHR ''/'') t"
        by blast
      have "s = take (character_width s) s @ drop (character_width s) s" by simp
      also have "\<dots> = strip_trailing_slashes s @ t"
        using t(1) strip_trailing_slashes_None [OF False None] by simp
      finally show ?thesis using t(2) by blast
    next
      case (Some g)
      from lazy_group_Some [OF Some] strip_trailing_slashes_Some [OF Some]
      show ?thesis by auto
    qed
  qed
qed

lemma strip_trailing_slashes_Nil: "strip_trailing_slashes s = [] \<longleftrightarrow> s = []"
proof (cases "s = []")
  case True
  then show ?thesis by simp
next
  case False
  show ?thesis
  proof (cases "lazy_group s")
    case None
    have "take (character_width s) s \<noteq> []"
      using False character_width_positive [of s] by simp
    then show ?thesis using False strip_trailing_slashes_None [OF False None] by simp
  next
    case (Some g)
    from lazy_group_Some [OF Some] strip_trailing_slashes_Some [OF Some] False
    show ?thesis by auto
  qed
qed

lemma lazy_group_None: "s = [] \<or> last s \<noteq> CHR ''/'' \<Longrightarrow> lazy_group s = None"
proof (cases "lazy_group s")
  case None
  then show ?thesis .
next
  case (Some g)
  assume a: "s = [] \<or> last s \<noteq> CHR ''/''"
  from lazy_group_Some [OF Some] obtain t where
    "s = g @ t" "t \<noteq> []" "list_all (\<lambda>d. d = CHR ''/'') t" by blast
  then have "s \<noteq> []" "last s = CHR ''/''" by (auto simp: list_all_iff)
  with a show ?thesis by simp
qed

lemma strip_trailing_slashes_id:
  "s = [] \<or> last s \<noteq> CHR ''/'' \<Longrightarrow> strip_trailing_slashes s = s"
proof (induction s rule: strip_trailing_slashes.induct)
  case (1 s)
  show ?case
  proof (cases "s = []")
    case True
    then show ?thesis by simp
  next
    case False
    from "1.prems" have none: "lazy_group s = None" by (rule lazy_group_None)
    let ?rest = "drop (character_width s) s"
    have "?rest = [] \<or> last ?rest \<noteq> CHR ''/''"
      using "1.prems" False by (cases "?rest = []") (simp_all add: last_drop)
    from "1.IH" [OF False none this]
    show ?thesis using strip_trailing_slashes_None [OF False none] by simp
  qed
qed

lemma strip_fixed_no_match:
  assumes "strip_trailing_slashes s = s" and "s \<noteq> []"
  shows "lazy_group s = None"
proof (cases "lazy_group s")
  case None
  then show ?thesis .
next
  case (Some g)
  with assms strip_trailing_slashes_Some [OF Some] have "g = s" by simp
  with lazy_group_Some [OF Some] show ?thesis by auto
qed

lemma strip_fixed_trailing:
  "strip_trailing_slashes s = s \<Longrightarrow> s \<noteq> [] \<Longrightarrow> last s = CHR ''/'' \<Longrightarrow>
     s = ''/'' \<or> (\<exists>u t. s = u @ t @ ''/'' \<and> is_line_terminator t)"
proof (induction s rule: strip_trailing_slashes.induct)
  case (1 s)
  let ?n = "character_width s"
  let ?rest = "drop ?n s"
  from "1.prems" have ne: "s \<noteq> []" and fixed: "strip_trailing_slashes s = s"
    and slash: "last s = CHR ''/''" by simp_all
  have none: "lazy_group s = None" using fixed ne by (rule strip_fixed_no_match)
  have "take ?n s @ strip_trailing_slashes ?rest = take ?n s @ ?rest"
    using strip_trailing_slashes_None [OF ne none] fixed by simp
  then have rest_fixed: "strip_trailing_slashes ?rest = ?rest" by (rule same_append_eq [THEN iffD1])
  obtain c cs where s: "s = c # cs" using ne by (cases s) auto
  show ?case
  proof (cases "line_terminator_ahead s")
    case None
    then have n: "?n = 1" by (simp add: character_width_def)
    have cs_fixed: "strip_trailing_slashes cs = cs" using rest_fixed n s by simp
    have not_run: "\<not> (cs \<noteq> [] \<and> list_all (\<lambda>d. d = CHR ''/'') cs)"
      using none None s by (auto split: if_splits)
    show ?thesis
    proof (cases "cs = []")
      case True
      with s slash show ?thesis by simp
    next
      case False
      have "last cs = CHR ''/''" using slash s False by simp
      with "1.IH" [OF ne none] rest_fixed n s False
      have "cs = ''/'' \<or> (\<exists>u t. cs = u @ t @ ''/'' \<and> is_line_terminator t)" by simp
      then show ?thesis
      proof
        assume "cs = ''/''"
        with not_run show ?thesis by simp
      next
        assume "\<exists>u t. cs = u @ t @ ''/'' \<and> is_line_terminator t"
        then obtain u t where "cs = u @ t @ ''/''" "is_line_terminator t" by blast
        then have "s = (c # u) @ t @ ''/''" "is_line_terminator t" using s by simp_all
        then show ?thesis by blast
      qed
    qed
  next
    case (Some t)
    from line_terminator_ahead_Some [OF Some]
    have t: "is_line_terminator t" "take (length t) s = t" "?n = length t" by simp_all
    have split: "s = t @ ?rest" using t(2,3) append_take_drop_id [of ?n s] by simp
    show ?thesis
    proof (cases "?rest = []")
      case True
      with split have "s = t" by simp
      with slash last_line_terminator [OF t(1)] show ?thesis by simp
    next
      case False
      have "last ?rest = CHR ''/''" using slash False split by (metis last_appendR)
      with "1.IH" [OF ne none rest_fixed False]
      have "?rest = ''/'' \<or> (\<exists>u t'. ?rest = u @ t' @ ''/'' \<and> is_line_terminator t')"
        by simp
      then show ?thesis
      proof
        assume "?rest = ''/''"
        with split have "s = [] @ t @ ''/''" by simp
        with t(1) show ?thesis by blast
      next
        assume "\<exists>u t'. ?rest = u @ t' @ ''/'' \<and> is_line_terminator t'"
        then obtain u t' where "?rest = u @ t' @ ''/''" "is_line_terminator t'" by blast
        with split have "s = (t @ u) @ t' @ ''/''" "is_line_terminator t'" by simp_all
        then show ?thesis by blast
      qed
    qed
  qed
qed

lemma strip_collapsed_cases:
  assumes "no_double_slash s"
  shows "strip_trailing_slashes s = s \<or>
         (strip_trailing_slashes s \<noteq> [] \<and> last (strip_trailing_slashes s) \<noteq> CHR ''/'')"
proof -
  let ?q = "strip_trailing_slashes s"
  obtain t where t: "s = ?q @ t" "list_all (\<lambda>d. d = CHR ''/'') t"
    using strip_trailing_slashes_prefix by blast
  show ?thesis
  proof (cases t)
    case Nil
    with t show ?thesis by simp
  next
    case (Cons d t')
    with t have d: "d = CHR ''/''" by simp
    have ne: "?q \<noteq> []" using t Cons by (auto simp: strip_trailing_slashes_Nil)
    then obtain u c where q: "?q = u @ [c]" by (metis rev_exhaust)
    have "s = u @ c # d # t'" using t(1) Cons q by simp
    with assms have "\<not> (c = CHR ''/'' \<and> d = CHR ''/'')" by (metis no_double_slash_middle)
    with d q ne show ?thesis by simp
  qed
qed

lemma strip_collapsed_idem:
  "no_double_slash s \<Longrightarrow>
     strip_trailing_slashes (strip_trailing_slashes s) = strip_trailing_slashes s"
  using strip_collapsed_cases [of s] by (auto simp: strip_trailing_slashes_id)

lemma strip_collapsed_trailing:
  assumes "no_double_slash s" and "strip_trailing_slashes s \<noteq> []"
    and "last (strip_trailing_slashes s) = CHR ''/''"
  shows "strip_trailing_slashes s = ''/'' \<or>
         (\<exists>u t. strip_trailing_slashes s = u @ t @ ''/'' \<and> is_line_terminator t)"
proof -
  from strip_collapsed_cases [OF assms(1)] assms(2,3)
  have fixed: "strip_trailing_slashes s = s" by auto
  with assms(2,3) have "s \<noteq> []" "last s = CHR ''/''" by simp_all
  from strip_fixed_trailing [OF fixed this] show ?thesis unfolding fixed .
qed

lemma no_double_slash_strip:
  "no_double_slash s \<Longrightarrow> no_double_slash (strip_trailing_slashes s)"
  using strip_trailing_slashes_prefix [of s] no_double_slash_append_left by metis

lemma set_strip_trailing_slashes: "set (strip_trailing_slashes s) \<subseteq> set s"
  using strip_trailing_slashes_prefix [of s] by (metis Un_upper1 set_append)

lemma normalizePath_decoded_clean:
  assumes dec: "decodeURIComponent (before_query p) = Some d"
    and clean: "CHR ''%'' \<notin> set d" "CHR ''?'' \<notin> set d" "CHR ''#'' \<notin> set d"
  shows "normalizePath (normalizePath p) = normalizePath p \<and>
         CHR ''?'' \<notin> set (normalizePath p) \<and> CHR ''#'' \<notin> set (normalizePath p) \<and>
         (normalizePath p \<noteq> [] \<and> last (normalizePath p) = CHR ''/'' \<longrightarrow>
            normalizePath p = ''/'' \<or>
            (\<exists>u t. normalizePath p = u @ t @ ''/'' \<and> is_line_terminator t))"
proof -
  let ?s = "collapse_slashes (backslashes_to_slashes d)"
  let ?q = "strip_trailing_slashes ?s"
  have q: "normalizePath p = ?q" using dec by (simp add: normalizePath_def)
  have nds: "no_double_slash ?s" by (rule no_double_slash_collapse)
  have sub: "set ?q \<subseteq> insert (CHR ''/'') (set d)"
    using set_strip_trailing_slashes [of ?s]
      set_collapse_slashes [of "backslashes_to_slashes d"]
      set_backslashes_to_slashes(1) [of d] by blast
  have nb: "backslash \<notin> set ?q"
    using set_strip_trailing_slashes [of ?s]
      set_collapse_slashes [of "backslashes_to_slashes d"]
      set_backslashes_to_slashes(2) [of d] by blast
  from sub clean have c: "CHR ''%'' \<notin> set ?q" "CHR ''?'' \<notin> set ?q" "CHR ''#'' \<notin> set ?q"
    by auto
  have "normalizePath ?q = ?q"
    using c nb nds
    by (simp add: normalizePath_def before_query_id decodeURIComponent_no_percent
        backslashes_to_slashes_id collapse_slashes_id no_double_slash_strip
        strip_collapsed_idem)
  moreover have "normalizePath p \<noteq> [] \<and> last (normalizePath p) = CHR ''/'' \<longrightarrow>
            normalizePath p = ''/'' \<or>
            (\<exists>u t. normalizePath p = u @ t @ ''/'' \<and> is_line_terminator t)"
    unfolding q using strip_collapsed_trailing [OF nds] by blast
  ultimately show ?thesis using c by (simp add: q)
qed

text \<open>
  Claim C8, as the code has it. A call of \<^verbatim>\<open>normalizePath\<close> decodes the percent escapes
  once, and the \<^verbatim>\<open>catch\<close> returns the raw path. So the claim holds for the paths that
  have no percent sign, and more generally for the paths whose part before the first
  \<^verbatim>\<open>?\<close> or \<^verbatim>\<open>#\<close> decodes to a text free of \<^verbatim>\<open>%\<close>, \<^verbatim>\<open>?\<close> and \<^verbatim>\<open>#\<close>: normalizing the
  output again returns it unchanged, the output has neither \<^verbatim>\<open>?\<close> nor \<^verbatim>\<open>#\<close>, and the
  output ends in a separator only when it is the root path or when the separator
  follows a line terminator (line feed, carriage return, U+2028 or U+2029), which
  \<^verbatim>\<open>.\<close> does not match.
\<close>

theorem C8_normalizePath_idempotent_when_decoded_clean:
  "CHR ''%'' \<notin> set p \<or>
   (\<exists>d. decodeURIComponent (before_query p) = Some d \<and>
        CHR ''%'' \<notin> set d \<and> CHR ''?'' \<notin> set d \<and> CHR ''#'' \<notin> set d) \<longrightarrow>
   normalizePath (normalizePath p) = normalizePath p \<and>
   CHR ''?'' \<notin> set (normalizePath p) \<and> CHR ''#'' \<notin> set (normalizePath p) \<and>
   (normalizePath p \<noteq> [] \<and> last (normalizePath p) = CHR ''/'' \<longrightarrow>
      normalizePath p = ''/'' \<or>
      (\<exists>u t. normalizePath p = u @ t @ ''/'' \<and> is_line_terminator t))"
proof
  assume "CHR ''%'' \<notin> set p \<or>
   (\<exists>d. decodeURIComponent (before_query p) = Some d \<and>
        CHR ''%'' \<notin> set d \<and> CHR ''?'' \<notin> set d \<and> CHR ''#'' \<notin> set d)"
  then obtain d where "decodeURIComponent (before_query p) = Some d"
    and "CHR ''%'' \<notin> set d" and "CHR ''?'' \<notin> set d" and "CHR ''#'' \<notin> set d"
  proof
    assume plain: "CHR ''%'' \<notin> set p"
    then have "CHR ''%'' \<notin> set (before_query p)" using before_query_set(3) [of p] by blast
    then have "decodeURIComponent (before_query p) = Some (before_query p)"
      "CHR ''%'' \<notin> set (before_query p)"
      by (simp_all add: decodeURIComponent_no_percent)
    then show ?thesis using before_query_set(1,2) [of p] that by blast
  next
    assume "\<exists>d. decodeURIComponent (before_query p) = Some d \<and>
        CHR ''%'' \<notin> set d \<and> CHR ''?'' \<notin> set d \<and> CHR ''#'' \<notin> set d"
    then show ?thesis using that by blast
  qed
  then show "normalizePath (normalizePath p) = normalizePath p \<and>
   CHR ''?'' \<notin> set (normalizePath p) \<and> CHR ''#'' \<notin> set (normalizePath p) \<and>
   (normalizePath p \<noteq> [] \<and> last (normalizePath p) = CHR ''/'' \<longrightarrow>
      normalizePath p = ''/'' \<or>
      (\<exists>u t. normalizePath p = u @ t @ ''/'' \<and> is_line_terminator t))"
    by (rule normalizePath_decoded_clean)
qed

theorem C8_witness:
  "decodeURIComponent (before_query ''/a%20b//c/?q=1#top'') = Some ''/a b//c/'' \<and>
   normalizePath ''/a%20b//c/?q=1#top'' = ''/a b/c'' \<and>
   normalizePath (normalizePath ''/a%20b//c/?q=1#top'') = normalizePath ''/a%20b//c/?q=1#top'' \<and>
   normalizePath ''/docs//guide/?page=2'' = ''/docs/guide'' \<and>
   normalizePath (normalizePath ''/docs//guide/?page=2'') = normalizePath ''/docs//guide/?page=2'' \<and>
   normalizePath ''/a%E2%80%A8/'' = ''/a'' @ [CHR 0xE2, CHR 0x80, CHR 0xA8] @ ''/'' \<and>
   is_line_terminator [CHR 0xE2, CHR 0x80, CHR 0xA8] \<and>
   normalizePath (normalizePath ''/a%E2%80%A8/'') = normalizePath ''/a%E2%80%A8/'' \<and>
   normalizePath ''/a%0A/'' = ''/a'' @ [CHR 0x0A] @ ''/'' \<and>
   normalizePath ''/'' = ''/''"
proof -
  have d: "decodeURIComponent (before_query ''/a%20b//c/?q=1#top'') = Some ''/a b//c/''"
    by code_simp
  have n: "normalizePath ''/a%20b//c/?q=1#top'' = ''/a b/c''"
    "normalizePath ''/docs//guide/?page=2'' = ''/docs/guide''"
    "normalizePath ''/a%E2%80%A8/'' = ''/a'' @ [CHR 0xE2, CHR 0x80, CHR 0xA8] @ ''/''"
    "normalizePath ''/a%0A/'' = ''/a'' @ [CHR 0x0A] @ ''/''"
    "normalizePath ''/'' = ''/''"
    by code_simp+
  have clean: "CHR ''%'' \<notin> set ''/a b//c/'' \<and> CHR ''?'' \<notin> set ''/a b//c/'' \<and>
      CHR ''#'' \<notin> set ''/a b//c/''"
    by simp
  have first: "normalizePath (normalizePath ''/a%20b//c/?q=1#top'') =
        normalizePath ''/a%20b//c/?q=1#top''"
    using C8_normalizePath_idempotent_when_decoded_clean [of "''/a%20b//c/?q=1#top''"] d clean
    by blast
  have plain: "CHR ''%'' \<notin> set ''/docs//guide/?page=2''"
    by simp
  have second: "normalizePath (normalizePath ''/docs//guide/?page=2'') =
        normalizePath ''/docs//guide/?page=2''"
    using C8_normalizePath_idempotent_when_decoded_clean [of "''/docs//guide/?page=2''"] plain
    by blast
  have separator: "decodeURIComponent (before_query ''/a%E2%80%A8/'') =
        Some (''/a'' @ [CHR 0xE2, CHR 0x80, CHR 0xA8] @ ''/'')"
    by code_simp
  have separator_clean:
    "CHR ''%'' \<notin> set (''/a'' @ [CHR 0xE2, CHR 0x80, CHR 0xA8] @ ''/'') \<and>
     CHR ''?'' \<notin> set (''/a'' @ [CHR 0xE2, CHR 0x80, CHR 0xA8] @ ''/'') \<and>
     CHR ''#'' \<notin> set (''/a'' @ [CHR 0xE2, CHR 0x80, CHR 0xA8] @ ''/'')"
    by simp
  have third: "normalizePath (normalizePath ''/a%E2%80%A8/'') = normalizePath ''/a%E2%80%A8/''"
    using C8_normalizePath_idempotent_when_decoded_clean [of "''/a%E2%80%A8/''"]
      separator separator_clean
    by blast
  have terminator: "is_line_terminator [CHR 0xE2, CHR 0x80, CHR 0xA8]"
    by (simp add: is_line_terminator_def line_terminators_def)
  from d n first second third terminator show ?thesis by simp
qed

text \<open>
  Claim C8 as stated fails: \<^verbatim>\<open>/a%2541\<close> normalizes to \<^verbatim>\<open>/a%41\<close>, and that to \<^verbatim>\<open>/aA\<close>;
  \<^verbatim>\<open>/a%3Fb\<close> normalizes to a path with a question mark; a path whose escape is malformed
  comes back raw, with its query and its trailing separator.
\<close>

theorem C8_counterexample:
  "normalizePath (normalizePath ''/a%2541'') \<noteq> normalizePath ''/a%2541'' \<and>
   normalizePath ''/a%2541'' = ''/a%41'' \<and>
   normalizePath (normalizePath ''/a%2541'') = ''/aA'' \<and>
   CHR ''?'' \<in> set (normalizePath ''/a%3Fb'') \<and>
   normalizePath ''/a%/?x=1'' = ''/a%/?x=1'' \<and>
   normalizePath ''/a%/'' = ''/a%/''"
  by code_simp

section \<open>Facts about the two example patterns\<close>

lemma pattern_pieces:
  "verb_and_path ''GET /api/*'' = [''GET'', ''/api/*'']"
  "verb_and_path ''/items/[id]'' = [''*'', ''/items/[id]'']"
  "verb_and_path ''*'' = [''*'', ''*'']"
  "verb_and_path ''/api/*'' = [''*'', ''/api/*'']"
  "verb_and_path ''GET /api/data'' = [''GET'', ''/api/data'']"
  by code_simp+

lemma pattern_sources:
  "parse_source (regexp_source ''/api/*'') =
     Inr [Lit CHR ''/'', Lit CHR ''a'', Lit CHR ''p'', Lit CHR ''i'', Lit CHR ''/'',
          DotStarLazy]"
  "parse_source (regexp_source ''/items/[id]'') =
     Inr [Lit CHR ''/'', Lit CHR ''i'', Lit CHR ''t'', Lit CHR ''e'', Lit CHR ''m'',
          Lit CHR ''s'', Lit CHR ''/'', NotSlashPlus]"
  "parse_source (regexp_source ''*'') = Inr [DotStarLazy]"
  "parse_source (regexp_source ''/api/data'') =
     Inr [Lit CHR ''/'', Lit CHR ''a'', Lit CHR ''p'', Lit CHR ''i'', Lit CHR ''/'',
          Lit CHR ''d'', Lit CHR ''a'', Lit CHR ''t'', Lit CHR ''a'']"
  by code_simp+

lemma toUpperCase_examples:
  "toUpperCase ''GET'' = ''GET''" "toUpperCase ''POST'' = ''POST''"
  "toUpperCase ''get'' = ''GET''" "toUpperCase ''*'' = ''*''"
  by code_simp+

lemma parse_get_api_star:
  "parseRoutePattern RegExp ''GET /api/*'' =
     Inr \<lparr>parsed_verb = ''GET'',
          parsed_regex =
            test [Lit CHR ''/'', Lit CHR ''a'', Lit CHR ''p'', Lit CHR ''i'', Lit CHR ''/'',
                  DotStarLazy]\<rparr>"
  by (simp add: parseRoutePattern_def RegExp_def pattern_pieces pattern_sources
      toUpperCase_examples)

lemma parse_items_id:
  "parseRoutePattern RegExp ''/items/[id]'' =
     Inr \<lparr>parsed_verb = ''*'',
          parsed_regex =
            test [Lit CHR ''/'', Lit CHR ''i'', Lit CHR ''t'', Lit CHR ''e'', Lit CHR ''m'',
                  Lit CHR ''s'', Lit CHR ''/'', NotSlashPlus]\<rparr>"
  by (simp add: parseRoutePattern_def RegExp_def pattern_pieces pattern_sources
      toUpperCase_examples)

lemma parse_star:
  "parseRoutePattern RegExp ''*'' =
     Inr \<lparr>parsed_verb = ''*'', parsed_regex = test [DotStarLazy]\<rparr>"
  by (simp add: parseRoutePattern_def RegExp_def pattern_pieces pattern_sources
      toUpperCase_examples)

lemma normalizePath_examples:
  "normalizePath ''/api/anything/nested'' = ''/api/anything/nested''"
  "normalizePath ''/api/anything'' = ''/api/anything''"
  "normalizePath ''/items/42'' = ''/items/42''"
  "normalizePath ''/items/42/sub'' = ''/items/42/sub''"
  "normalizePath ''/api/data?fresh=1'' = ''/api/data''"
  by code_simp+

lemma test_examples:
  "test [Lit CHR ''/'', Lit CHR ''a'', Lit CHR ''p'', Lit CHR ''i'', Lit CHR ''/'', DotStarLazy]
     ''/api/anything/nested''"
  "test [Lit CHR ''/'', Lit CHR ''a'', Lit CHR ''p'', Lit CHR ''i'', Lit CHR ''/'', DotStarLazy]
     ''/api/anything''"
  "test [Lit CHR ''/'', Lit CHR ''i'', Lit CHR ''t'', Lit CHR ''e'', Lit CHR ''m'',
         Lit CHR ''s'', Lit CHR ''/'', NotSlashPlus] ''/items/42''"
  "\<not> test [Lit CHR ''/'', Lit CHR ''i'', Lit CHR ''t'', Lit CHR ''e'', Lit CHR ''m'',
           Lit CHR ''s'', Lit CHR ''/'', NotSlashPlus] ''/items/42/sub''"
  "test [DotStarLazy] ''/api/data''"
  by code_simp+

text \<open>
  The separator U+2028 is a line terminator: the wildcard does not take it, the class
  of a parameter does.
\<close>

lemma test_line_separator:
  "\<not> test [Lit CHR ''/'', Lit CHR ''a'', Lit CHR ''p'', Lit CHR ''i'', Lit CHR ''/'', DotStarLazy]
       (''/api/a'' @ [CHR 0xE2, CHR 0x80, CHR 0xA8] @ ''b'')"
  "test [Lit CHR ''/'', Lit CHR ''i'', Lit CHR ''t'', Lit CHR ''e'', Lit CHR ''m'',
         Lit CHR ''s'', Lit CHR ''/'', NotSlashPlus]
     (''/items/4'' @ [CHR 0xE2, CHR 0x80, CHR 0xA8] @ ''2'')"
  by code_simp+

text \<open>
  Claim C9. A server built from the one-route table \<^verbatim>\<open>GET /api/*\<close> finds the route for
  a GET request to \<^verbatim>\<open>/api/anything/nested\<close> and to \<^verbatim>\<open>/api/anything\<close>, and finds none for
  a POST request to \<^verbatim>\<open>/api/anything\<close>. A server built from \<^verbatim>\<open>/items/[id]\<close> finds the
  route for \<^verbatim>\<open>/items/42\<close> and none for \<^verbatim>\<open>/items/42/sub\<close>, whatever the method.
\<close>

theorem C9_compiled_pattern_semantics:
  "(\<exists>srv. new_x402HTTPResourceServer RegExp rs (RouteTable [(''GET /api/*'', c)]) = Inr srv \<and>
       getRouteConfig srv ''/api/anything/nested'' ''GET'' = Some c \<and>
       getRouteConfig srv ''/api/anything'' ''GET'' = Some c \<and>
       getRouteConfig srv ''/api/anything'' ''POST'' = None) \<and>
   (\<exists>srv. new_x402HTTPResourceServer RegExp rs (RouteTable [(''/items/[id]'', c)]) = Inr srv \<and>
       (\<forall>m. getRouteConfig srv ''/items/42'' m = Some c \<and>
            getRouteConfig srv ''/items/42/sub'' m = None))"
  by (simp add: new_x402HTTPResourceServer_def getRouteConfig_def route_matches_def
      parse_get_api_star parse_items_id normalizePath_examples test_examples
      toUpperCase_examples del: test.simps)

theorem C9_witness:
  "(\<exists>srv. new_x402HTTPResourceServer RegExp demo_authority
            (RouteTable [(''GET /api/*'', demo_route (Many []) None)]) = Inr srv \<and>
       getRouteConfig srv ''/api/anything/nested'' ''GET'' = Some (demo_route (Many []) None) \<and>
       getRouteConfig srv ''/api/anything'' ''POST'' = None) \<and>
   (\<exists>srv. new_x402HTTPResourceServer RegExp demo_authority
            (RouteTable [(''/items/[id]'', demo_route (Many []) None)]) = Inr srv \<and>
       getRouteConfig srv ''/items/42'' ''GET'' = Some (demo_route (Many []) None) \<and>
       getRouteConfig srv ''/items/42/sub'' ''GET'' = None)"
  using C9_compiled_pattern_semantics [of demo_authority "demo_route (Many []) None"]
  by blast

section \<open>Facts about payment options\<close>

text \<open>
  Claim C10, as the code has it. \<^verbatim>\<open>normalizePaymentOptions\<close> returns the options of the
  route in their order: the array itself when \<^verbatim>\<open>accepts\<close> is an array, the one-element
  list when it is a single option. The result is empty exactly when \<^verbatim>\<open>accepts\<close> is the
  empty array, and the startup check adds no error for such a route.
\<close>

theorem C10_normalizePaymentOptions_keeps_accepts:
  "(\<forall>options. accepts rc = Many options \<longrightarrow> normalizePaymentOptions rc = options) \<and>
   (\<forall>option. accepts rc = One option \<longrightarrow> normalizePaymentOptions rc = [option]) \<and>
   (normalizePaymentOptions rc = [] \<longleftrightarrow> accepts rc = Many []) \<and>
   (accepts rc = Many [] \<longrightarrow>
      validate_options version rs pattern (normalizePaymentOptions rc) errors = errors)"
  by (cases "accepts rc") (auto simp: normalizePaymentOptions_def)

theorem C10_witness:
  "normalizePaymentOptions (demo_route (Many [demo_option ''exact'' ''eip155:8453'']) None) =
     [demo_option ''exact'' ''eip155:8453''] \<and>
   normalizePaymentOptions (demo_route (One (demo_option ''exact'' ''eip155:8453'')) None) =
     [demo_option ''exact'' ''eip155:8453'']"
  using C10_normalizePaymentOptions_keeps_accepts
      [of "demo_route (Many [demo_option ''exact'' ''eip155:8453'']) None"]
    C10_normalizePaymentOptions_keeps_accepts
      [of "demo_route (One (demo_option ''exact'' ''eip155:8453'')) None"]
  by (simp add: demo_route_def)

text \<open>
  Claim C10 as stated fails on a route whose \<^verbatim>\<open>accepts\<close> is the empty array: the list of
  options is empty, the server is built, \<^verbatim>\<open>initialize\<close> raises nothing, and a request
  without payment is answered with the 402 response.
\<close>

theorem C10_counterexample:
  "normalizePaymentOptions (demo_route (Many []) None) = [] \<and>
   new_x402HTTPResourceServer RegExp demo_authority (SingleRoute (demo_route (Many []) None)) =
     Inr (demo_server (SingleRoute (demo_route (Many []) None))
            [\<lparr>verb = ''*'', regex = test [DotStarLazy], config = demo_route (Many []) None\<rparr>]) \<and>
   fst (initialize demo_imports
          (demo_server (SingleRoute (demo_route (Many []) None))
             [\<lparr>verb = ''*'', regex = test [DotStarLazy], config = demo_route (Many []) None\<rparr>])) =
     Inr () \<and>
   fst (processHTTPRequest demo_imports
          (demo_server (SingleRoute (demo_route (Many []) None))
             [\<lparr>verb = ''*'', regex = test [DotStarLazy], config = demo_route (Many []) None\<rparr>])
          (demo_context None [] []) None) =
     Inr (PaymentError
            \<lparr>status = 402,
             headers = [(''Content-Type'', ''application/json''),
                        (''PAYMENT-REQUIRED'', ''required:Payment required'')],
             body = Some EmptyObject, isHtml = None\<rparr>)"
  by (simp add: normalizePaymentOptions_def demo_route_def new_x402HTTPResourceServer_def
      parse_star demo_server_def initialize_def validateRouteConfiguration_def
      demo_authority_def demo_imports_def await_def call_def resolve_def throw_def
      processHTTPRequest_def processGatedRequest_def getRouteConfig_def route_matches_def
      enrichedExtensions_def unpaidBody_def resourceInfo_def
      demo_context_def demo_adapter_def normalizePath_examples test_examples
      extractPayment_def payment_signature_header_def createHTTPResponse_def
      isWebBrowser_def createHTTPPaymentRequiredResponse_def del: test.simps)

section \<open>Facts about awaits and try/catch\<close>

lemma fst_await_Inr:
  "fst (await m f) = Inr v \<longleftrightarrow> (\<exists>u. fst m = Inr u \<and> fst (f u) = Inr v)"
  by (auto simp: await_def split: sum.splits)

lemma fst_await_Inl:
  "fst (await m f) = Inl e \<longleftrightarrow> fst m = Inl e \<or> (\<exists>u. fst m = Inr u \<and> fst (f u) = Inl e)"
  by (auto simp: await_def split: sum.splits)

lemma fst_try_catch_Inr:
  "fst (try_catch m h) = Inr v \<longleftrightarrow>
     fst m = Inr v \<or> (\<exists>e. fst m = Inl e \<and> fst (h e) = Inr v)"
  by (auto simp: try_catch_def split: sum.splits)

lemma fst_resolve: "fst (resolve v) = Inr v"
  by (simp add: resolve_def)

lemma fst_call: "fst (call c r) = r"
  by (simp add: call_def)

lemma await_returned: "fst m = Inr v \<Longrightarrow> await m f = (fst (f v), snd m @ snd (f v))"
  by (simp add: await_def)

lemma await_thrown: "fst m = Inl e \<Longrightarrow> await m f = (Inl e, snd m)"
  by (simp add: await_def)

lemma try_catch_returned: "fst m = Inr v \<Longrightarrow> try_catch m h = m"
  by (simp add: try_catch_def)

lemma try_catch_thrown:
  "fst m = Inl e \<Longrightarrow> try_catch m h = (fst (h e), snd m @ snd (h e))"
  by (simp add: try_catch_def)

lemma not_called_await:
  "c \<notin> set (snd m) \<Longrightarrow> (\<And>v. c \<notin> set (snd (f v))) \<Longrightarrow> c \<notin> set (snd (await m f))"
  by (simp add: await_def split: sum.splits)

lemma not_called_try_catch:
  "c \<notin> set (snd m) \<Longrightarrow> (\<And>e. c \<notin> set (snd (h e))) \<Longrightarrow> c \<notin> set (snd (try_catch m h))"
  by (simp add: try_catch_def split: sum.splits)

lemma not_called_resolve: "c \<notin> set (snd (resolve v))"
  by (simp add: resolve_def)

lemma not_called_call: "c \<noteq> c' \<Longrightarrow> c \<notin> set (snd (call c' r))"
  by (simp add: call_def)

lemmas not_called =
  not_called_await not_called_try_catch not_called_resolve not_called_call

section \<open>Facts about request processing\<close>


lemma extractPayment_Some_iff:
  "extractPayment M a = Some payload \<longleftrightarrow>
     (\<exists>header. payment_signature_header a = Some header \<and> header \<noteq> [] \<and>
               decodePaymentSignatureHeader M header = Inr payload)"
  by (auto simp: extractPayment_def split: option.splits sum.splits)


lemma enrichedExtensions_not_called:
  "c \<noteq> Call_enrichExtensions \<Longrightarrow> c \<notin> set (snd (enrichedExtensions srv rc ctx))"
  unfolding enrichedExtensions_def
  by (cases "extensions rc") (simp_all add: not_called)

lemma unpaidBody_not_called:
  "c \<noteq> Call_unpaidResponseBody \<Longrightarrow> c \<notin> set (snd (unpaidBody rc ctx))"
  unfolding unpaidBody_def
  by (cases "unpaidResponseBody rc") (simp_all add: not_called)

lemma verifyPaymentBlock_never_settles:
  "Call_settlePayment \<notin>
     set (snd (verifyPaymentBlock M srv rc pc requirements info paymentRequired payload))"
  unfolding verifyPaymentBlock_def
  by (intro not_called allI impI conjI | simp split: option.split)+

lemma gated_never_settles:
  "Call_settlePayment \<notin> set (snd (processGatedRequest M srv rc ctx pc))"
  unfolding processGatedRequest_def Let_def
  by (intro not_called enrichedExtensions_not_called unpaidBody_not_called
        verifyPaymentBlock_never_settles allI impI conjI
      | simp split: option.split)+

lemma verifyPaymentBlock_not_pass:
  "fst (verifyPaymentBlock M srv rc pc requirements info paymentRequired payload) \<noteq>
     Inr NoPaymentRequired"
  unfolding verifyPaymentBlock_def
  by (auto simp: fst_await_Inr fst_try_catch_Inr fst_resolve fst_call
      split: option.splits if_splits)

lemma gated_never_passes_through:
  "fst (processGatedRequest M srv routeConfig context paywallConfig) \<noteq> Inr NoPaymentRequired"
  unfolding processGatedRequest_def Let_def
  by (auto simp: fst_await_Inr fst_resolve fst_call verifyPaymentBlock_not_pass
      split: option.splits)


lemma snd_resolve: "snd (resolve v) = []"
  by (simp add: resolve_def)

lemma snd_call: "snd (call c r) = [c]"
  by (simp add: call_def)

lemma error_response:
  "createHTTPResponse M srv descriptor False pc None None =
     \<lparr>status = 402,
      headers = [(''Content-Type'', ''application/json''),
                 (''PAYMENT-REQUIRED'', encodePaymentRequiredHeader M descriptor)],
      body = Some EmptyObject, isHtml = None\<rparr>"
  by (simp add: createHTTPResponse_def createHTTPPaymentRequiredResponse_def)

lemma gated_paid:
  assumes "extractPayment M (adapter ctx) = Some payload"
    and "buildPaymentRequirementsFromOptions (ResourceServer srv)
           (normalizePaymentOptions rc) ctx = Inr requirements"
    and "fst (enrichedExtensions srv rc ctx) = Inr enriched"
    and "createPaymentRequiredResponse (ResourceServer srv) requirements (resourceInfo rc ctx)
           None enriched = Inr paymentRequired"
  shows "processGatedRequest M srv rc ctx pc =
     (fst (verifyPaymentBlock M srv rc pc requirements (resourceInfo rc ctx) paymentRequired
             payload),
      Call_buildPaymentRequirementsFromOptions # snd (enrichedExtensions srv rc ctx) @
      Call_createPaymentRequiredResponse None #
      snd (verifyPaymentBlock M srv rc pc requirements (resourceInfo rc ctx) paymentRequired
             payload))"
  using assms
  by (simp add: processGatedRequest_def Let_def await_returned fst_call snd_call)


lemma block_no_match:
  assumes "findMatchingRequirements (ResourceServer srv) (required_accepts paymentRequired)
             payload = Inr None"
    and "createPaymentRequiredResponse (ResourceServer srv) requirements info
           (Some ''No matching payment requirements'') (extensions rc) = Inr descriptor"
  shows "verifyPaymentBlock M srv rc pc requirements info paymentRequired payload =
     (Inr (PaymentError (createHTTPResponse M srv descriptor False pc None None)),
      [Call_findMatchingRequirements,
       Call_createPaymentRequiredResponse (Some ''No matching payment requirements'')])"
  using assms
  by (simp add: verifyPaymentBlock_def await_returned try_catch_returned fst_call snd_call
      fst_resolve snd_resolve)

lemma block_invalid:
  assumes "findMatchingRequirements (ResourceServer srv) (required_accepts paymentRequired)
             payload = Inr (Some matching)"
    and "verifyPayment (ResourceServer srv) payload matching = Inr verdict"
    and "\<not> isValid verdict"
    and "createPaymentRequiredResponse (ResourceServer srv) requirements info
           (invalidReason verdict) (extensions rc) = Inr descriptor"
  shows "verifyPaymentBlock M srv rc pc requirements info paymentRequired payload =
     (Inr (PaymentError (createHTTPResponse M srv descriptor False pc None None)),
      [Call_findMatchingRequirements, Call_verifyPayment,
       Call_createPaymentRequiredResponse (invalidReason verdict)])"
  using assms
  by (simp add: verifyPaymentBlock_def await_returned try_catch_returned fst_call snd_call
      fst_resolve snd_resolve)

lemma block_valid:
  assumes "findMatchingRequirements (ResourceServer srv) (required_accepts paymentRequired)
             payload = Inr (Some matching)"
    and "verifyPayment (ResourceServer srv) payload matching = Inr verdict"
    and "isValid verdict"
  shows "verifyPaymentBlock M srv rc pc requirements info paymentRequired payload =
     (Inr (PaymentVerified payload matching),
      [Call_findMatchingRequirements, Call_verifyPayment])"
  using assms
  by (simp add: verifyPaymentBlock_def await_returned try_catch_returned fst_call snd_call
      fst_resolve snd_resolve)

lemma block_find_throws:
  assumes "findMatchingRequirements (ResourceServer srv) (required_accepts paymentRequired)
             payload = Inl e"
    and "createPaymentRequiredResponse (ResourceServer srv) requirements info
           (Some (message_or e ''Payment verification failed'')) (extensions rc) =
         Inr descriptor"
  shows "fst (verifyPaymentBlock M srv rc pc requirements info paymentRequired payload) =
     Inr (PaymentError (createHTTPResponse M srv descriptor False pc None None))"
  using assms
  by (simp add: verifyPaymentBlock_def await_returned await_thrown try_catch_thrown fst_call
      snd_call fst_resolve snd_resolve)

lemma block_verify_throws:
  assumes "findMatchingRequirements (ResourceServer srv) (required_accepts paymentRequired)
             payload = Inr (Some matching)"
    and "verifyPayment (ResourceServer srv) payload matching = Inl e"
    and "createPaymentRequiredResponse (ResourceServer srv) requirements info
           (Some (message_or e ''Payment verification failed'')) (extensions rc) =
         Inr descriptor"
  shows "fst (verifyPaymentBlock M srv rc pc requirements info paymentRequired payload) =
     Inr (PaymentError (createHTTPResponse M srv descriptor False pc None None))"
  using assms
  by (simp add: verifyPaymentBlock_def await_returned await_thrown try_catch_thrown fst_call
      snd_call fst_resolve snd_resolve)

lemma block_returns:
  assumes "\<forall>why. \<exists>descriptor.
      createPaymentRequiredResponse (ResourceServer srv) requirements info why
        (extensions rc) = Inr descriptor"
  shows "\<exists>result.
     fst (verifyPaymentBlock M srv rc pc requirements info paymentRequired payload) = Inr result"
proof -
  let ?guarded = "await (call Call_findMatchingRequirements
                 (findMatchingRequirements (ResourceServer srv)
                    (required_accepts paymentRequired) payload))
          (\<lambda>matchingRequirements.
             case matchingRequirements of
               None \<Rightarrow>
                 await (call (Call_createPaymentRequiredResponse
                                (Some ''No matching payment requirements''))
                          (createPaymentRequiredResponse (ResourceServer srv) requirements info
                             (Some ''No matching payment requirements'')
                             (extensions rc)))
                   (\<lambda>errorResponse.
                      resolve (PaymentError
                        (createHTTPResponse M srv errorResponse False pc None None)))
             | Some matching \<Rightarrow>
                 await (call Call_verifyPayment
                          (verifyPayment (ResourceServer srv) payload matching))
                   (\<lambda>verifyResult.
                      if \<not> isValid verifyResult then
                        await (call (Call_createPaymentRequiredResponse
                                       (invalidReason verifyResult))
                                 (createPaymentRequiredResponse (ResourceServer srv)
                                    requirements info (invalidReason verifyResult)
                                    (extensions rc)))
                          (\<lambda>errorResponse.
                             resolve (PaymentError
                               (createHTTPResponse M srv errorResponse False pc
                                  None None)))
                      else resolve (PaymentVerified payload matching)))"
  show ?thesis
  proof (cases "fst ?guarded")
    case (Inr result)
    then show ?thesis by (simp add: verifyPaymentBlock_def try_catch_returned)
  next
    case (Inl e)
    from assms obtain descriptor where
      "createPaymentRequiredResponse (ResourceServer srv) requirements info
         (Some (message_or e ''Payment verification failed'')) (extensions rc) =
       Inr descriptor" by blast
    with Inl show ?thesis
      by (simp add: verifyPaymentBlock_def try_catch_thrown await_returned fst_call fst_resolve)
  qed
qed


section \<open>Facts about construction and route lookup\<close>

lemma parseRoutePattern_verb:
  "parseRoutePattern new_RegExp pattern = Inr parsed \<Longrightarrow>
     parsed_verb parsed = toUpperCase (declared_verb pattern)"
  by (auto simp: parseRoutePattern_def verb_and_path_def declared_verb_def
      split: list.splits sum.splits if_splits)

lemma compile_routes_Inr:
  "compile_routes new_RegExp entries = Inr compiled \<Longrightarrow>
     length compiled = length entries \<and>
     (\<forall>i<length entries.
        config (compiled ! i) = snd (entries ! i) \<and>
        verb (compiled ! i) = toUpperCase (declared_verb (fst (entries ! i))) \<and>
        (\<exists>parsed. parseRoutePattern new_RegExp (fst (entries ! i)) = Inr parsed \<and>
                  regex (compiled ! i) = parsed_regex parsed))"
proof (induction entries arbitrary: compiled)
  case Nil
  then show ?case by simp
next
  case (Cons entry entries)
  obtain pattern routeConfig where entry: "entry = (pattern, routeConfig)" by (cases entry)
  from Cons.prems entry obtain parsed rest where
    parsed: "parseRoutePattern new_RegExp pattern = Inr parsed" and
    rest: "compile_routes new_RegExp entries = Inr rest" and
    compiled: "compiled = \<lparr>verb = parsed_verb parsed, regex = parsed_regex parsed,
                            config = routeConfig\<rparr> # rest"
    by (auto split: sum.splits)
  from Cons.IH [OF rest] have len: "length rest = length entries" and
    ih: "\<And>i. i < length entries \<Longrightarrow>
        config (rest ! i) = snd (entries ! i) \<and>
        verb (rest ! i) = toUpperCase (declared_verb (fst (entries ! i))) \<and>
        (\<exists>parsed. parseRoutePattern new_RegExp (fst (entries ! i)) = Inr parsed \<and>
                  regex (rest ! i) = parsed_regex parsed)"
    by auto
  show ?case
  proof (intro conjI allI impI)
    show "length compiled = length (entry # entries)" using len compiled by simp
  next
    fix i assume i: "i < length (entry # entries)"
    show "config (compiled ! i) = snd ((entry # entries) ! i)"
      using i ih compiled entry by (cases i) auto
    show "verb (compiled ! i) = toUpperCase (declared_verb (fst ((entry # entries) ! i)))"
      using i ih compiled entry parseRoutePattern_verb [OF parsed] by (cases i) auto
    show "\<exists>parsed. parseRoutePattern new_RegExp (fst ((entry # entries) ! i)) = Inr parsed \<and>
                  regex (compiled ! i) = parsed_regex parsed"
      using i ih compiled entry parsed by (cases i) auto
  qed
qed

lemma parse_demo:
  "parseRoutePattern RegExp ''/api/*'' =
     Inr \<lparr>parsed_verb = ''*'',
          parsed_regex =
            test [Lit CHR ''/'', Lit CHR ''a'', Lit CHR ''p'', Lit CHR ''i'', Lit CHR ''/'',
                  DotStarLazy]\<rparr>"
  "parseRoutePattern RegExp ''GET /api/data'' =
     Inr \<lparr>parsed_verb = ''GET'',
          parsed_regex =
            test [Lit CHR ''/'', Lit CHR ''a'', Lit CHR ''p'', Lit CHR ''i'', Lit CHR ''/'',
                  Lit CHR ''d'', Lit CHR ''a'', Lit CHR ''t'', Lit CHR ''a'']\<rparr>"
  by (simp_all add: parseRoutePattern_def RegExp_def pattern_pieces pattern_sources
      toUpperCase_examples)

lemma demo_built:
  "new_x402HTTPResourceServer RegExp demo_authority demo_table = Inr (demo_server demo_table demo_compiled)"
  by (simp add: new_x402HTTPResourceServer_def demo_table_def demo_compiled_def parse_demo
      demo_server_def)

lemma demo_tests:
  "test [Lit CHR ''/'', Lit CHR ''a'', Lit CHR ''p'', Lit CHR ''i'', Lit CHR ''/'', DotStarLazy]
     ''/api/data''"
  "test [Lit CHR ''/'', Lit CHR ''a'', Lit CHR ''p'', Lit CHR ''i'', Lit CHR ''/'',
         Lit CHR ''d'', Lit CHR ''a'', Lit CHR ''t'', Lit CHR ''a''] ''/api/data''"
  "\<not> test [Lit CHR ''/'', Lit CHR ''a'', Lit CHR ''p'', Lit CHR ''i'', Lit CHR ''/'', DotStarLazy]
     ''/health''"
  "\<not> test [Lit CHR ''/'', Lit CHR ''a'', Lit CHR ''p'', Lit CHR ''i'', Lit CHR ''/'',
         Lit CHR ''d'', Lit CHR ''a'', Lit CHR ''t'', Lit CHR ''a''] ''/health''"
  "normalizePath ''/health'' = ''/health''"
  by code_simp+

lemma demo_lookup:
  "getRouteConfig (demo_server demo_table demo_compiled) ''/api/data?fresh=1'' ''get'' =
     Some demo_wildcard_route"
  "getRouteConfig (demo_server demo_table demo_compiled) ''/health'' ''GET'' = None"
  by (simp_all add: getRouteConfig_def demo_server_def demo_compiled_def route_matches_def
      normalizePath_examples demo_tests del: test.simps)

text \<open>
  Claim C1. Whatever the constructor of expressions does: when the server's constructor
  returns a server, its compiled routes are the entries of the table in their order,
  each with the config of its entry, the upper-cased verb its pattern declares and the
  expression made from its pattern. For every server, \<^verbatim>\<open>getRouteConfig\<close> answers the
  config of the compiled route of least index whose expression accepts the normalized
  path and whose verb is \<^verbatim>\<open>*\<close> or the upper-cased method, and answers nothing exactly
  when no compiled route does. \<^verbatim>\<open>processHTTPRequest\<close> returns the no-payment-required
  result, with no call to a collaborator, when the lookup finds nothing; when it finds
  a config the request is processed with that config and the result is never
  no-payment-required.
\<close>

theorem C1_first_match_wins:
   "(new_x402HTTPResourceServer new_RegExp rs routes = Inr srv \<longrightarrow>
      length (compiledRoutes srv) = length (normalizedRoutes routes) \<and>
      (\<forall>i<length (normalizedRoutes routes).
          config (compiledRoutes srv ! i) = snd (normalizedRoutes routes ! i) \<and>
          verb (compiledRoutes srv ! i) =
            toUpperCase (declared_verb (fst (normalizedRoutes routes ! i))) \<and>
          (\<exists>parsed. parseRoutePattern new_RegExp (fst (normalizedRoutes routes ! i)) =
                      Inr parsed \<and>
                    regex (compiledRoutes srv ! i) = parsed_regex parsed))) \<and>
    (\<forall>c. getRouteConfig srv p m = Some c \<longleftrightarrow>
        (\<exists>i<length (compiledRoutes srv).
            regex (compiledRoutes srv ! i) (normalizePath p) \<and>
            (verb (compiledRoutes srv ! i) = ''*'' \<or>
             verb (compiledRoutes srv ! i) = toUpperCase m) \<and>
            (\<forall>j<i. \<not> (regex (compiledRoutes srv ! j) (normalizePath p) \<and>
                        (verb (compiledRoutes srv ! j) = ''*'' \<or>
                         verb (compiledRoutes srv ! j) = toUpperCase m))) \<and>
            c = config (compiledRoutes srv ! i))) \<and>
    (getRouteConfig srv p m = None \<longleftrightarrow>
        (\<forall>i<length (compiledRoutes srv).
            \<not> (regex (compiledRoutes srv ! i) (normalizePath p) \<and>
               (verb (compiledRoutes srv ! i) = ''*'' \<or>
                verb (compiledRoutes srv ! i) = toUpperCase m)))) \<and>
    (getRouteConfig srv (path ctx) (method ctx) = None \<longrightarrow>
        processHTTPRequest M srv ctx pc = (Inr NoPaymentRequired, [])) \<and>
    (\<forall>c. getRouteConfig srv (path ctx) (method ctx) = Some c \<longrightarrow>
        processHTTPRequest M srv ctx pc = processGatedRequest M srv c ctx pc \<and>
        fst (processHTTPRequest M srv ctx pc) \<noteq> Inr NoPaymentRequired)"
proof -
  have order: "new_x402HTTPResourceServer new_RegExp rs routes = Inr srv \<longrightarrow>
      length (compiledRoutes srv) = length (normalizedRoutes routes) \<and>
      (\<forall>i<length (normalizedRoutes routes).
          config (compiledRoutes srv ! i) = snd (normalizedRoutes routes ! i) \<and>
          verb (compiledRoutes srv ! i) =
            toUpperCase (declared_verb (fst (normalizedRoutes routes ! i))) \<and>
          (\<exists>parsed. parseRoutePattern new_RegExp (fst (normalizedRoutes routes ! i)) =
                      Inr parsed \<and>
                    regex (compiledRoutes srv ! i) = parsed_regex parsed))"
  proof
    assume "new_x402HTTPResourceServer new_RegExp rs routes = Inr srv"
    then have "compile_routes new_RegExp (normalizedRoutes routes) = Inr (compiledRoutes srv)"
      by (auto simp: new_x402HTTPResourceServer_def split: sum.splits)
    then show "length (compiledRoutes srv) = length (normalizedRoutes routes) \<and>
      (\<forall>i<length (normalizedRoutes routes).
          config (compiledRoutes srv ! i) = snd (normalizedRoutes routes ! i) \<and>
          verb (compiledRoutes srv ! i) =
            toUpperCase (declared_verb (fst (normalizedRoutes routes ! i))) \<and>
          (\<exists>parsed. parseRoutePattern new_RegExp (fst (normalizedRoutes routes ! i)) =
                      Inr parsed \<and>
                    regex (compiledRoutes srv ! i) = parsed_regex parsed))"
      by (rule compile_routes_Inr)
  qed
  have some: "\<forall>c. getRouteConfig srv p m = Some c \<longleftrightarrow>
        (\<exists>i<length (compiledRoutes srv).
            regex (compiledRoutes srv ! i) (normalizePath p) \<and>
            (verb (compiledRoutes srv ! i) = ''*'' \<or>
             verb (compiledRoutes srv ! i) = toUpperCase m) \<and>
            (\<forall>j<i. \<not> (regex (compiledRoutes srv ! j) (normalizePath p) \<and>
                        (verb (compiledRoutes srv ! j) = ''*'' \<or>
                         verb (compiledRoutes srv ! j) = toUpperCase m))) \<and>
            c = config (compiledRoutes srv ! i))"
    unfolding getRouteConfig_def Let_def map_option_eq_Some find_Some_iff route_matches_def
    by blast
  have none: "getRouteConfig srv p m = None \<longleftrightarrow>
        (\<forall>i<length (compiledRoutes srv).
            \<not> (regex (compiledRoutes srv ! i) (normalizePath p) \<and>
               (verb (compiledRoutes srv ! i) = ''*'' \<or>
                verb (compiledRoutes srv ! i) = toUpperCase m)))"
    unfolding getRouteConfig_def Let_def map_option_is_None find_None_iff route_matches_def
      in_set_conv_nth
    by blast
  have pass: "getRouteConfig srv (path ctx) (method ctx) = None \<longrightarrow>
        processHTTPRequest M srv ctx pc = (Inr NoPaymentRequired, [])"
    by (simp add: processHTTPRequest_def resolve_def)
  have gated: "\<forall>c. getRouteConfig srv (path ctx) (method ctx) = Some c \<longrightarrow>
        processHTTPRequest M srv ctx pc = processGatedRequest M srv c ctx pc \<and>
        fst (processHTTPRequest M srv ctx pc) \<noteq> Inr NoPaymentRequired"
    by (simp add: processHTTPRequest_def gated_never_passes_through)
  from order some none pass gated show ?thesis by blast
qed

theorem C1_witness:
  "new_x402HTTPResourceServer RegExp demo_authority demo_table =
     Inr (demo_server demo_table demo_compiled) \<and>
   length (compiledRoutes (demo_server demo_table demo_compiled)) = 2 \<and>
   regex (demo_compiled ! 0) (normalizePath ''/api/data?fresh=1'') \<and>
   regex (demo_compiled ! 1) (normalizePath ''/api/data?fresh=1'') \<and>
   verb (demo_compiled ! 1) = toUpperCase ''get'' \<and>
   getRouteConfig (demo_server demo_table demo_compiled) ''/api/data?fresh=1'' ''get'' =
     Some (config (demo_compiled ! 0)) \<and>
   getRouteConfig (demo_server demo_table demo_compiled) ''/health'' ''GET'' = None \<and>
   processHTTPRequest demo_imports (demo_server demo_table demo_compiled)
     \<lparr>adapter = demo_adapter None [] [], path = ''/health'', method = ''GET'',
      paymentHeader = None\<rparr> None = (Inr NoPaymentRequired, [])"
proof -
  note c1 =
    C1_first_match_wins [of RegExp demo_authority demo_table
      "demo_server demo_table demo_compiled" "''/health''" "''GET''"
      "\<lparr>adapter = demo_adapter None [] [], path = ''/health'', method = ''GET'',
        paymentHeader = None\<rparr>" demo_imports None]
  from c1 demo_built
  have len: "length (compiledRoutes (demo_server demo_table demo_compiled)) = 2"
    by (simp add: demo_table_def)
  from c1 have pass: "processHTTPRequest demo_imports (demo_server demo_table demo_compiled)
     \<lparr>adapter = demo_adapter None [] [], path = ''/health'', method = ''GET'',
      paymentHeader = None\<rparr> None = (Inr NoPaymentRequired, [])"
    by (simp add: demo_lookup)
  show ?thesis
    using demo_built demo_lookup pass len
    by (simp add: demo_compiled_def normalizePath_examples demo_tests toUpperCase_examples
        del: test.simps)
qed

section \<open>Facts about startup validation\<close>

lemma validate_options_closed:
  "validate_options version rs pattern options errors =
     errors @
     concat (map (\<lambda>option.
                    if \<not> hasRegisteredScheme rs (network option) (scheme option)
                    then [missing_scheme_error pattern option]
                    else if getSupportedKind rs version (network option) (scheme option) = None
                    then [missing_facilitator_error pattern option]
                    else [])
               options)"
  by (induction options arbitrary: errors) (auto split: option.splits)

lemma validate_routes_closed:
  "validate_routes version rs routes errors =
     errors @
     concat (map (\<lambda>entry.
                    concat (map (\<lambda>option.
                                   if \<not> hasRegisteredScheme rs (network option) (scheme option)
                                   then [missing_scheme_error (fst entry) option]
                                   else if getSupportedKind rs version (network option)
                                             (scheme option) = None
                                   then [missing_facilitator_error (fst entry) option]
                                   else [])
                              (normalizePaymentOptions (snd entry))))
               routes)"
  by (induction routes arbitrary: errors) (auto simp: validate_options_closed cong: if_cong)

lemma set_concat_concat:
  "set (concat (map (\<lambda>x. concat (map (f x) (g x))) xs)) =
     (\<Union>x \<in> set xs. \<Union>y \<in> set (g x). set (f x y))"
  by auto

text \<open>
  Claim C7, as the code has it. \<^verbatim>\<open>validateRouteConfiguration\<close> goes through every
  option of every route, in the order of the routes and of the options, whatever the
  earlier ones gave. An option whose scheme is not registered is reported as
  \<open>missing_scheme\<close>, and the \<^verbatim>\<open>continue\<close> skips the facilitator check for it; an
  option whose scheme is registered and that the facilitator does not support is
  reported as \<open>missing_facilitator\<close>. Each error carries the pattern of its route, the
  scheme and the network of its option, and the message made of them. Nothing else is
  reported, and the list is empty exactly when every option passes both checks. Once
  the resource server's own \<^verbatim>\<open>initialize()\<close> has returned, \<^verbatim>\<open>initialize\<close> raises nothing
  when the list is empty and otherwise raises one \<^verbatim>\<open>RouteConfigurationError\<close> that
  carries the whole list; what the resource server's \<^verbatim>\<open>initialize()\<close> throws is
  thrown on.
\<close>

theorem C7_startup_validation_aggregates:
  "validateRouteConfiguration M srv =
     concat (map (\<lambda>entry.
       concat (map (\<lambda>option.
         if \<not> hasRegisteredScheme (ResourceServer srv) (network option) (scheme option)
         then [\<lparr>routePattern = fst entry, error_scheme = scheme option,
                 error_network = network option, reason = missing_scheme,
                 message =
                   ''Route '' @ [CHR 0x22] @ fst entry @ [CHR 0x22] @
                   '': No scheme implementation registered for '' @
                   [CHR 0x22] @ scheme option @ [CHR 0x22] @ '' on network '' @
                   [CHR 0x22] @ network option @ [CHR 0x22]\<rparr>]
         else if getSupportedKind (ResourceServer srv) (x402Version M) (network option)
                   (scheme option) = None
         then [\<lparr>routePattern = fst entry, error_scheme = scheme option,
                 error_network = network option, reason = missing_facilitator,
                 message =
                   ''Route '' @ [CHR 0x22] @ fst entry @ [CHR 0x22] @
                   '': Facilitator does not support scheme '' @
                   [CHR 0x22] @ scheme option @ [CHR 0x22] @ '' on network '' @
                   [CHR 0x22] @ network option @ [CHR 0x22]\<rparr>]
         else [])
         (normalizePaymentOptions (snd entry))))
       (normalizedRoutes (routesConfig srv))) \<and>
   (\<forall>entry \<in> set (normalizedRoutes (routesConfig srv)).
      \<forall>option \<in> set (normalizePaymentOptions (snd entry)).
        (\<not> hasRegisteredScheme (ResourceServer srv) (network option) (scheme option) \<longrightarrow>
           (\<exists>e \<in> set (validateRouteConfiguration M srv).
              routePattern e = fst entry \<and> error_scheme e = scheme option \<and>
              error_network e = network option \<and> reason e = missing_scheme)) \<and>
        (hasRegisteredScheme (ResourceServer srv) (network option) (scheme option) \<and>
         getSupportedKind (ResourceServer srv) (x402Version M) (network option) (scheme option) =
           None \<longrightarrow>
           (\<exists>e \<in> set (validateRouteConfiguration M srv).
              routePattern e = fst entry \<and> error_scheme e = scheme option \<and>
              error_network e = network option \<and> reason e = missing_facilitator))) \<and>
   (\<forall>e \<in> set (validateRouteConfiguration M srv).
      \<exists>entry \<in> set (normalizedRoutes (routesConfig srv)).
        \<exists>option \<in> set (normalizePaymentOptions (snd entry)).
          routePattern e = fst entry \<and> error_scheme e = scheme option \<and>
          error_network e = network option \<and>
          (if reason e = missing_scheme
           then \<not> hasRegisteredScheme (ResourceServer srv) (network option) (scheme option)
           else hasRegisteredScheme (ResourceServer srv) (network option) (scheme option) \<and>
                getSupportedKind (ResourceServer srv) (x402Version M) (network option)
                  (scheme option) = None)) \<and>
   (validateRouteConfiguration M srv = [] \<longleftrightarrow>
      (\<forall>entry \<in> set (normalizedRoutes (routesConfig srv)).
         \<forall>option \<in> set (normalizePaymentOptions (snd entry)).
           hasRegisteredScheme (ResourceServer srv) (network option) (scheme option) \<and>
           getSupportedKind (ResourceServer srv) (x402Version M) (network option)
             (scheme option) \<noteq> None)) \<and>
   fst (initialize M srv) =
     (case initialize_result (ResourceServer srv) of
        Inl e \<Rightarrow> Inl e
      | Inr u \<Rightarrow>
          if validateRouteConfiguration M srv = [] then Inr ()
          else Inl (ThrownRouteConfigurationError (validateRouteConfiguration M srv)))"
proof -
  let ?routes = "normalizedRoutes (routesConfig srv)"
  let ?rs = "ResourceServer srv"
  let ?v = "x402Version M"
  let ?pushed = "\<lambda>pattern option.
     if \<not> hasRegisteredScheme ?rs (network option) (scheme option)
     then [missing_scheme_error pattern option]
     else if getSupportedKind ?rs ?v (network option) (scheme option) = None
     then [missing_facilitator_error pattern option]
     else []"
  have eq: "validateRouteConfiguration M srv =
      concat (map (\<lambda>entry. concat (map (?pushed (fst entry))
                                       (normalizePaymentOptions (snd entry)))) ?routes)"
    by (simp add: validateRouteConfiguration_def validate_routes_closed)
  have mem: "set (validateRouteConfiguration M srv) =
      (\<Union>entry \<in> set ?routes. \<Union>option \<in> set (normalizePaymentOptions (snd entry)).
          set (?pushed (fst entry) option))"
    unfolding eq by (rule set_concat_concat)
  have closed: "validateRouteConfiguration M srv =
     concat (map (\<lambda>entry.
       concat (map (\<lambda>option.
         if \<not> hasRegisteredScheme (ResourceServer srv) (network option) (scheme option)
         then [\<lparr>routePattern = fst entry, error_scheme = scheme option,
                 error_network = network option, reason = missing_scheme,
                 message =
                   ''Route '' @ [CHR 0x22] @ fst entry @ [CHR 0x22] @
                   '': No scheme implementation registered for '' @
                   [CHR 0x22] @ scheme option @ [CHR 0x22] @ '' on network '' @
                   [CHR 0x22] @ network option @ [CHR 0x22]\<rparr>]
         else if getSupportedKind (ResourceServer srv) (x402Version M) (network option)
                   (scheme option) = None
         then [\<lparr>routePattern = fst entry, error_scheme = scheme option,
                 error_network = network option, reason = missing_facilitator,
                 message =
                   ''Route '' @ [CHR 0x22] @ fst entry @ [CHR 0x22] @
                   '': Facilitator does not support scheme '' @
                   [CHR 0x22] @ scheme option @ [CHR 0x22] @ '' on network '' @
                   [CHR 0x22] @ network option @ [CHR 0x22]\<rparr>]
         else [])
         (normalizePaymentOptions (snd entry))))
       (normalizedRoutes (routesConfig srv)))"
    unfolding eq missing_scheme_error_def missing_facilitator_error_def quoted_def
    by (simp only: append_assoc)
  have init: "fst (initialize M srv) =
     (case initialize_result (ResourceServer srv) of
        Inl e \<Rightarrow> Inl e
      | Inr u \<Rightarrow>
          if validateRouteConfiguration M srv = [] then Inr ()
          else Inl (ThrownRouteConfigurationError (validateRouteConfiguration M srv)))"
    by (simp add: initialize_def await_def call_def resolve_def throw_def Let_def
        split: sum.splits)
  have found: "\<forall>entry \<in> set ?routes.
      \<forall>option \<in> set (normalizePaymentOptions (snd entry)).
        (\<not> hasRegisteredScheme ?rs (network option) (scheme option) \<longrightarrow>
           (\<exists>e \<in> set (validateRouteConfiguration M srv).
              routePattern e = fst entry \<and> error_scheme e = scheme option \<and>
              error_network e = network option \<and> reason e = missing_scheme)) \<and>
        (hasRegisteredScheme ?rs (network option) (scheme option) \<and>
         getSupportedKind ?rs ?v (network option) (scheme option) = None \<longrightarrow>
           (\<exists>e \<in> set (validateRouteConfiguration M srv).
              routePattern e = fst entry \<and> error_scheme e = scheme option \<and>
              error_network e = network option \<and> reason e = missing_facilitator))"
  proof (intro ballI conjI impI)
    fix entry option
    assume e: "entry \<in> set ?routes" and o: "option \<in> set (normalizePaymentOptions (snd entry))"
    {
      assume "\<not> hasRegisteredScheme ?rs (network option) (scheme option)"
      then have "missing_scheme_error (fst entry) option \<in> set (?pushed (fst entry) option)"
        by simp
      with e o have "missing_scheme_error (fst entry) option \<in>
          set (validateRouteConfiguration M srv)"
        unfolding mem by blast
      then show "\<exists>e \<in> set (validateRouteConfiguration M srv).
              routePattern e = fst entry \<and> error_scheme e = scheme option \<and>
              error_network e = network option \<and> reason e = missing_scheme"
        by (rule bexI [rotated]) (simp add: missing_scheme_error_def)
    }
    {
      assume "hasRegisteredScheme ?rs (network option) (scheme option) \<and>
         getSupportedKind ?rs ?v (network option) (scheme option) = None"
      then have "missing_facilitator_error (fst entry) option \<in> set (?pushed (fst entry) option)"
        by simp
      with e o have "missing_facilitator_error (fst entry) option \<in>
          set (validateRouteConfiguration M srv)"
        unfolding mem by blast
      then show "\<exists>e \<in> set (validateRouteConfiguration M srv).
              routePattern e = fst entry \<and> error_scheme e = scheme option \<and>
              error_network e = network option \<and> reason e = missing_facilitator"
        by (rule bexI [rotated]) (simp add: missing_facilitator_error_def)
    }
  qed
  have sound: "\<forall>e \<in> set (validateRouteConfiguration M srv).
      \<exists>entry \<in> set ?routes.
        \<exists>option \<in> set (normalizePaymentOptions (snd entry)).
          routePattern e = fst entry \<and> error_scheme e = scheme option \<and>
          error_network e = network option \<and>
          (if reason e = missing_scheme
           then \<not> hasRegisteredScheme ?rs (network option) (scheme option)
           else hasRegisteredScheme ?rs (network option) (scheme option) \<and>
                getSupportedKind ?rs ?v (network option) (scheme option) = None)"
  proof
    fix e
    assume "e \<in> set (validateRouteConfiguration M srv)"
    then obtain entry option where eo: "entry \<in> set ?routes"
      "option \<in> set (normalizePaymentOptions (snd entry))"
      "e \<in> set (?pushed (fst entry) option)"
      unfolding mem by blast
    from eo(3) have "routePattern e = fst entry \<and> error_scheme e = scheme option \<and>
          error_network e = network option \<and>
          (if reason e = missing_scheme
           then \<not> hasRegisteredScheme ?rs (network option) (scheme option)
           else hasRegisteredScheme ?rs (network option) (scheme option) \<and>
                getSupportedKind ?rs ?v (network option) (scheme option) = None)"
      by (auto simp: missing_scheme_error_def missing_facilitator_error_def
          split: if_splits)
    with eo(1,2) show "\<exists>entry \<in> set ?routes.
        \<exists>option \<in> set (normalizePaymentOptions (snd entry)).
          routePattern e = fst entry \<and> error_scheme e = scheme option \<and>
          error_network e = network option \<and>
          (if reason e = missing_scheme
           then \<not> hasRegisteredScheme ?rs (network option) (scheme option)
           else hasRegisteredScheme ?rs (network option) (scheme option) \<and>
                getSupportedKind ?rs ?v (network option) (scheme option) = None)"
      by blast
  qed
  have empty: "validateRouteConfiguration M srv = [] \<longleftrightarrow>
      (\<forall>entry \<in> set ?routes.
         \<forall>option \<in> set (normalizePaymentOptions (snd entry)).
           hasRegisteredScheme ?rs (network option) (scheme option) \<and>
           getSupportedKind ?rs ?v (network option) (scheme option) \<noteq> None)"
  proof -
    have ov: "\<And>pattern option. ?pushed pattern option = [] \<longleftrightarrow>
        hasRegisteredScheme ?rs (network option) (scheme option) \<and>
        getSupportedKind ?rs ?v (network option) (scheme option) \<noteq> None"
      by simp
    have "validateRouteConfiguration M srv = [] \<longleftrightarrow>
        set (validateRouteConfiguration M srv) = {}"
      by simp
    also have "\<dots> \<longleftrightarrow>
        (\<forall>entry \<in> set ?routes. \<forall>option \<in> set (normalizePaymentOptions (snd entry)).
            ?pushed (fst entry) option = [])"
      unfolding mem by simp
    finally show ?thesis unfolding ov .
  qed
  from closed found sound empty init show ?thesis by (intro conjI)
qed


lemma demo_misconfigured_built:
  "new_x402HTTPResourceServer RegExp demo_authority demo_misconfigured_table =
     Inr (demo_server demo_misconfigured_table demo_misconfigured_compiled)"
  by (simp add: new_x402HTTPResourceServer_def demo_misconfigured_table_def
      demo_misconfigured_compiled_def parse_demo parse_items_id demo_server_def)

theorem C7_witness:
  "new_x402HTTPResourceServer RegExp demo_authority demo_misconfigured_table =
     Inr (demo_server demo_misconfigured_table demo_misconfigured_compiled) \<and>
   validateRouteConfiguration demo_imports
       (demo_server demo_misconfigured_table demo_misconfigured_compiled) = demo_reported \<and>
   map routePattern demo_reported = [''GET /api/data'', ''GET /api/data'', ''/items/[id]''] \<and>
   map reason demo_reported = [missing_scheme, missing_facilitator, missing_scheme] \<and>
   fst (initialize demo_imports
          (demo_server demo_misconfigured_table demo_misconfigured_compiled)) =
     Inl (ThrownRouteConfigurationError demo_reported) \<and>
   validateRouteConfiguration demo_imports (demo_server demo_table demo_compiled) = [] \<and>
   fst (initialize demo_imports (demo_server demo_table demo_compiled)) = Inr ()"
proof -
  have v: "validateRouteConfiguration demo_imports
       (demo_server demo_misconfigured_table demo_misconfigured_compiled) = demo_reported"
    using C7_startup_validation_aggregates
      [of demo_imports "demo_server demo_misconfigured_table demo_misconfigured_compiled",
       THEN conjunct1]
    by (simp add: demo_reported_def demo_server_def
        demo_misconfigured_table_def demo_authority_def demo_imports_def demo_route_def
        demo_wildcard_route_def demo_option_def normalizePaymentOptions_def)
  have w: "validateRouteConfiguration demo_imports (demo_server demo_table demo_compiled) = []"
    using C7_startup_validation_aggregates
      [of demo_imports "demo_server demo_table demo_compiled", THEN conjunct1]
    by (simp add: demo_server_def
        demo_table_def demo_authority_def demo_imports_def demo_route_def
        demo_wildcard_route_def demo_data_route_def demo_option_def
        normalizePaymentOptions_def)
  have i: "initialize_result (ResourceServer (demo_server t c)) = Inr ()" for t c
    by (simp add: demo_server_def demo_authority_def)
  have r: "demo_reported \<noteq> []"
    "map routePattern demo_reported = [''GET /api/data'', ''GET /api/data'', ''/items/[id]'']"
    "map reason demo_reported = [missing_scheme, missing_facilitator, missing_scheme]"
    by (simp_all add: demo_reported_def)
  show ?thesis
    using C7_startup_validation_aggregates
      [of demo_imports "demo_server demo_misconfigured_table demo_misconfigured_compiled"]
      C7_startup_validation_aggregates
      [of demo_imports "demo_server demo_table demo_compiled"]
    by (simp add: v w i r demo_misconfigured_built)
qed

text \<open>
  Claim C7 as stated fails: the option \<^verbatim>\<open>upto\<close> on \<^verbatim>\<open>solana:mainnet\<close> of the route
  \<^verbatim>\<open>/items/[id]\<close> fails both checks, and the code reports it once, as a missing scheme:
  the list of the code has three errors where both checks on every option give four.
  And with a table in order \<^verbatim>\<open>initialize\<close> still raises what the resource server's own
  \<^verbatim>\<open>initialize()\<close> throws.
\<close>

theorem C7_counterexample:
  "\<not> hasRegisteredScheme demo_authority ''solana:mainnet'' ''upto'' \<and>
   getSupportedKind demo_authority (x402Version demo_imports) ''solana:mainnet'' ''upto'' =
     None \<and>
   validateRouteConfiguration demo_imports
       (demo_server demo_misconfigured_table demo_misconfigured_compiled) = demo_reported \<and>
   specified_violations (x402Version demo_imports) demo_authority
       (normalizedRoutes demo_misconfigured_table) =
     demo_reported @
     [\<lparr>routePattern = ''/items/[id]'', error_scheme = ''upto'',
       error_network = ''solana:mainnet'', reason = missing_facilitator,
       message =
         ''Route '' @ [CHR 0x22] @ ''/items/[id]'' @ [CHR 0x22] @
         '': Facilitator does not support scheme '' @ [CHR 0x22] @ ''upto'' @
         [CHR 0x22] @ '' on network '' @ [CHR 0x22] @ ''solana:mainnet'' @ [CHR 0x22]\<rparr>] \<and>
   validateRouteConfiguration demo_imports
       (demo_server demo_misconfigured_table demo_misconfigured_compiled) \<noteq>
     specified_violations (x402Version demo_imports) demo_authority
       (normalizedRoutes demo_misconfigured_table) \<and>
   validateRouteConfiguration demo_imports
       (demo_gateway
          (demo_authority
             \<lparr>initialize_result := Inl (ThrownError ''facilitator unreachable'')\<rparr>)) = [] \<and>
   fst (initialize demo_imports
          (demo_gateway
             (demo_authority
                \<lparr>initialize_result := Inl (ThrownError ''facilitator unreachable'')\<rparr>))) =
     Inl (ThrownError ''facilitator unreachable'')"
  by (simp add: validateRouteConfiguration_def specified_violations_def
      specified_option_violations_def missing_scheme_error_def missing_facilitator_error_def
      quoted_def demo_reported_def demo_server_def demo_gateway_def
      demo_misconfigured_table_def demo_table_def demo_authority_def demo_imports_def
      demo_route_def demo_wildcard_route_def demo_data_route_def demo_option_def
      normalizePaymentOptions_def initialize_def await_def call_def resolve_def throw_def)

section \<open>Facts about response composition\<close>

lemma string_includes_iff: "string_includes s sub \<longleftrightarrow> (\<exists>u v. s = u @ sub @ v)"
proof (induction s)
  case Nil
  show ?case by auto
next
  case (Cons c cs)
  show ?case
  proof
    assume "string_includes (c # cs) sub"
    then consider "take (length sub) (c # cs) = sub" | "string_includes cs sub" by auto
    then show "\<exists>u v. c # cs = u @ sub @ v"
    proof cases
      case 1
      then have "c # cs = [] @ sub @ drop (length sub) (c # cs)"
        by (metis append_Nil append_take_drop_id)
      then show ?thesis by blast
    next
      case 2
      with Cons.IH obtain u v where "cs = u @ sub @ v" by blast
      then have "c # cs = (c # u) @ sub @ v" by simp
      then show ?thesis by blast
    qed
  next
    assume "\<exists>u v. c # cs = u @ sub @ v"
    then obtain u v where uv: "c # cs = u @ sub @ v" by blast
    show "string_includes (c # cs) sub"
    proof (cases u)
      case Nil
      with uv have "take (length sub) (c # cs) = sub" by simp
      then show ?thesis by simp
    next
      case (Cons a u')
      with uv have "cs = u' @ sub @ v" by simp
      with Cons.IH show ?thesis by auto
    qed
  qed
qed

text \<open>
  Claim C6. A request is a browser's exactly when its accept header contains
  \<^verbatim>\<open>text/html\<close> and its user agent contains \<^verbatim>\<open>Mozilla\<close>. For a browser the response
  has status 402, the content type \<^verbatim>\<open>text/html\<close> and the paywall page as its body. For
  any other client it has status 402, the header \<^verbatim>\<open>PAYMENT-REQUIRED\<close> with the encoded
  descriptor, and the content type and body that the route's generator returned, or
  \<^verbatim>\<open>application/json\<close> and the empty object when the route has no generator. The
  response to a request without payment is composed this way, with the classification
  of its adapter.
\<close>

theorem C6_response_composition:
  "(isWebBrowser a \<longleftrightarrow>
      (\<exists>u v. getAcceptHeader a = u @ ''text/html'' @ v) \<and>
      (\<exists>u v. getUserAgent a = u @ ''Mozilla'' @ v)) \<and>
   createHTTPResponse M srv paymentRequired True pc customHtml unpaid =
     \<lparr>status = 402, headers = [(''Content-Type'', ''text/html'')],
      body = Some (Html (generatePaywallHTML M srv paymentRequired pc customHtml)),
      isHtml = Some True\<rparr> \<and>
   createHTTPResponse M srv paymentRequired False pc customHtml (Some generated) =
     \<lparr>status = 402,
      headers = [(''Content-Type'', contentType generated),
                 (''PAYMENT-REQUIRED'', encodePaymentRequiredHeader M paymentRequired)],
      body = Some (Custom (unpaid_body generated)), isHtml = None\<rparr> \<and>
   createHTTPResponse M srv paymentRequired False pc customHtml None =
     \<lparr>status = 402,
      headers = [(''Content-Type'', ''application/json''),
                 (''PAYMENT-REQUIRED'', encodePaymentRequiredHeader M paymentRequired)],
      body = Some EmptyObject, isHtml = None\<rparr> \<and>
   (extractPayment M (adapter ctx) = None \<and>
    buildPaymentRequirementsFromOptions (ResourceServer srv)
      (normalizePaymentOptions rc) ctx = Inr requirements \<and>
    fst (enrichedExtensions srv rc ctx) = Inr enriched \<and>
    createPaymentRequiredResponse (ResourceServer srv) requirements (resourceInfo rc ctx)
      (Some ''Payment required'') enriched = Inr paymentRequired \<and>
    fst (unpaidBody rc ctx) = Inr unpaid \<longrightarrow>
    fst (processGatedRequest M srv rc ctx pc) =
      Inr (PaymentError
             (createHTTPResponse M srv paymentRequired (isWebBrowser (adapter ctx)) pc
                (customPaywallHtml rc) unpaid)))"
  by (auto simp: isWebBrowser_def string_includes_iff createHTTPResponse_def
      createHTTPPaymentRequiredResponse_def processGatedRequest_def Let_def
      await_returned fst_call fst_resolve)

section \<open>Facts about settlement\<close>

text \<open>
  Claim C5. \<^verbatim>\<open>processSettlement\<close> always returns a result and calls the resource
  server once, to settle. On success the result carries the header \<^verbatim>\<open>PAYMENT-RESPONSE\<close>
  that encodes the settle response with the same requirements, and the requirements.
  On a reported failure it carries the reason of the resource server, or
  \<^verbatim>\<open>Settlement failed\<close> when that is absent or empty. On a thrown \<^verbatim>\<open>SettleError\<close> it
  carries the error's reason (its message when the reason is absent or empty), payer,
  network and transaction. On anything else thrown it carries the message, the network
  of the requirements and an empty transaction.
\<close>

theorem C5_settlement_outcomes:
  "(\<exists>result. fst (processSettlement M srv payload requirements) = Inr result) \<and>
   snd (processSettlement M srv payload requirements) = [Call_settlePayment] \<and>
   (\<forall>response.
      settlePayment (ResourceServer srv) payload requirements = Inr response \<and>
      success response \<longrightarrow>
      fst (processSettlement M srv payload requirements) =
        Inr (ProcessSettleSuccess (response\<lparr>success := True\<rparr>)
               [(''PAYMENT-RESPONSE'',
                 encodePaymentResponseHeader M (response, requirements))]
               requirements)) \<and>
   (\<forall>response.
      settlePayment (ResourceServer srv) payload requirements = Inr response \<and>
      \<not> success response \<longrightarrow>
      fst (processSettlement M srv payload requirements) =
        Inr (ProcessSettleFailure
               (response\<lparr>success := False,
                  errorReason :=
                    Some (case errorReason response of
                            None \<Rightarrow> ''Settlement failed''
                          | Some given \<Rightarrow>
                              if given = [] then ''Settlement failed'' else given)\<rparr>))) \<and>
   (\<forall>e.
      settlePayment (ResourceServer srv) payload requirements = Inl (ThrownSettleError e)
      \<longrightarrow>
      fst (processSettlement M srv payload requirements) =
        Inr (ProcessSettleFailure
               \<lparr>success = False,
                errorReason =
                  Some (case settle_error_reason e of
                          None \<Rightarrow> settle_error_message e
                        | Some given \<Rightarrow>
                            if given = [] then settle_error_message e else given),
                payer = settle_error_payer e,
                transaction = settle_error_transaction e,
                settle_network = settle_error_network e\<rparr>)) \<and>
   (\<forall>e.
      settlePayment (ResourceServer srv) payload requirements = Inl e \<and>
      (\<forall>fields. e \<noteq> ThrownSettleError fields) \<longrightarrow>
      fst (processSettlement M srv payload requirements) =
        Inr (ProcessSettleFailure
               \<lparr>success = False,
                errorReason = Some (message_or e ''Settlement failed''),
                payer = None,
                transaction = [],
                settle_network = requirements_network requirements\<rparr>))"
  by (auto simp: processSettlement_def try_catch_def await_def call_def resolve_def
      createSettlementHeaders_def split: sum.splits thrown.splits option.splits)


section \<open>Facts about verification\<close>

text \<open>
  Claim C2. On a payment-gated route, for a proof header that decodes, and once the
  requirements, the extensions and the descriptor of the offer have been built: when
  the resource server finds no matching requirement, the result is a payment error
  whose 402 response carries, encoded, the descriptor that the resource server made
  from the full requirement set and the reason \<^verbatim>\<open>No matching payment requirements\<close>;
  when the resource server reports the payment invalid, the result is a payment error
  whose descriptor was made with the reason it gave; when the payment is valid, the
  result is payment-verified with that proof and the matched requirement, after the
  calls to build, enrich, describe, match and verify and no other. No run of
  \<^verbatim>\<open>processHTTPRequest\<close> calls the settlement.
\<close>

theorem C2_verification_outcomes:
  assumes route: "getRouteConfig srv (path ctx) (method ctx) = Some rc"
    and header: "payment_signature_header (adapter ctx) = Some header" "header \<noteq> []"
    and decoded: "decodePaymentSignatureHeader M header = Inr payload"
    and built: "buildPaymentRequirementsFromOptions (ResourceServer srv)
                  (normalizePaymentOptions rc) ctx = Inr requirements"
    and enriched: "fst (enrichedExtensions srv rc ctx) = Inr enriched"
    and offered: "createPaymentRequiredResponse (ResourceServer srv) requirements
                    (resourceInfo rc ctx) None enriched = Inr paymentRequired"
  shows
   "(\<forall>descriptor.
       findMatchingRequirements (ResourceServer srv) (required_accepts paymentRequired)
         payload = Inr None \<and>
       createPaymentRequiredResponse (ResourceServer srv) requirements (resourceInfo rc ctx)
         (Some ''No matching payment requirements'') (extensions rc) = Inr descriptor \<longrightarrow>
       fst (processHTTPRequest M srv ctx pc) =
         Inr (PaymentError
                \<lparr>status = 402,
                 headers = [(''Content-Type'', ''application/json''),
                            (''PAYMENT-REQUIRED'', encodePaymentRequiredHeader M descriptor)],
                 body = Some EmptyObject, isHtml = None\<rparr>)) \<and>
    (\<forall>matching verdict descriptor.
       findMatchingRequirements (ResourceServer srv) (required_accepts paymentRequired)
         payload = Inr (Some matching) \<and>
       verifyPayment (ResourceServer srv) payload matching = Inr verdict \<and>
       \<not> isValid verdict \<and>
       createPaymentRequiredResponse (ResourceServer srv) requirements (resourceInfo rc ctx)
         (invalidReason verdict) (extensions rc) = Inr descriptor \<longrightarrow>
       fst (processHTTPRequest M srv ctx pc) =
         Inr (PaymentError
                \<lparr>status = 402,
                 headers = [(''Content-Type'', ''application/json''),
                            (''PAYMENT-REQUIRED'', encodePaymentRequiredHeader M descriptor)],
                 body = Some EmptyObject, isHtml = None\<rparr>)) \<and>
    (\<forall>matching verdict.
       findMatchingRequirements (ResourceServer srv) (required_accepts paymentRequired)
         payload = Inr (Some matching) \<and>
       verifyPayment (ResourceServer srv) payload matching = Inr verdict \<and>
       isValid verdict \<longrightarrow>
       processHTTPRequest M srv ctx pc =
         (Inr (PaymentVerified payload matching),
          Call_buildPaymentRequirementsFromOptions # snd (enrichedExtensions srv rc ctx) @
          [Call_createPaymentRequiredResponse None, Call_findMatchingRequirements,
           Call_verifyPayment])) \<and>
    Call_settlePayment \<notin> set (snd (processHTTPRequest M srv ctx pc))"
proof -
  have present: "extractPayment M (adapter ctx) = Some payload"
    using header decoded by (simp add: extractPayment_Some_iff)
  have gated: "processHTTPRequest M srv ctx pc = processGatedRequest M srv rc ctx pc"
    using route by (simp add: processHTTPRequest_def)
  note paid = gated_paid [OF present built enriched offered, of pc]
  have never: "Call_settlePayment \<notin> set (snd (processHTTPRequest M srv ctx pc))"
    unfolding gated by (rule gated_never_settles)
  show ?thesis
    using never
    by (auto simp: gated paid block_no_match block_invalid block_valid error_response)
qed



section \<open>Facts about exceptions\<close>

lemma enrichedExtensions_thrown:
  "extensions rc = Some declared \<Longrightarrow>
   enrichExtensions (ResourceServer srv) declared ctx = Inl e \<Longrightarrow>
   fst (enrichedExtensions srv rc ctx) = Inl e"
  by (simp add: enrichedExtensions_def await_thrown fst_call)

lemma unpaidBody_thrown:
  "unpaidResponseBody rc = Some generator \<Longrightarrow> generator ctx = Inl e \<Longrightarrow>
   fst (unpaidBody rc ctx) = Inl e"
  by (simp add: unpaidBody_def await_thrown fst_call)

lemma processSettlement_returns:
  "\<exists>result. fst (processSettlement M srv payload requirements) = Inr result"
  by (auto simp: processSettlement_def try_catch_def await_def call_def resolve_def
      split: sum.splits thrown.splits)

text \<open>
  Claim C4, as the code has it. In \<^verbatim>\<open>processHTTPRequest\<close> the \<^verbatim>\<open>try\<close> holds the matching
  and the verification only. What \<^verbatim>\<open>buildPaymentRequirementsFromOptions\<close> throws (it
  resolves the dynamic payee and price), what \<^verbatim>\<open>enrichExtensions\<close> throws, what the
  first \<^verbatim>\<open>createPaymentRequiredResponse\<close> throws and what the route's generator of the
  unpaid response throws leave the function. When these return and the descriptor of an
  error can be built, the function returns whatever matching and verification do: what
  they throw becomes a payment error whose descriptor is built with the message of the
  error. \<^verbatim>\<open>processSettlement\<close> always returns, and \<^verbatim>\<open>initialize\<close> raises the
  configuration error when the startup check finds a violation.
\<close>

theorem C4_only_matching_and_verification_are_guarded:
  assumes route: "getRouteConfig srv (path ctx) (method ctx) = Some rc"
  shows
   "(\<forall>e. buildPaymentRequirementsFromOptions (ResourceServer srv)
           (normalizePaymentOptions rc) ctx = Inl e \<longrightarrow>
         fst (processHTTPRequest M srv ctx pc) = Inl e) \<and>
    (\<forall>requirements declared e.
       buildPaymentRequirementsFromOptions (ResourceServer srv)
         (normalizePaymentOptions rc) ctx = Inr requirements \<and>
       extensions rc = Some declared \<and>
       enrichExtensions (ResourceServer srv) declared ctx = Inl e \<longrightarrow>
       fst (processHTTPRequest M srv ctx pc) = Inl e) \<and>
    (\<forall>requirements enriched e.
       buildPaymentRequirementsFromOptions (ResourceServer srv)
         (normalizePaymentOptions rc) ctx = Inr requirements \<and>
       fst (enrichedExtensions srv rc ctx) = Inr enriched \<and>
       createPaymentRequiredResponse (ResourceServer srv) requirements (resourceInfo rc ctx)
         (if extractPayment M (adapter ctx) = None then Some ''Payment required'' else None)
         enriched = Inl e \<longrightarrow>
       fst (processHTTPRequest M srv ctx pc) = Inl e) \<and>
    (\<forall>requirements enriched paymentRequired generator e.
       extractPayment M (adapter ctx) = None \<and>
       buildPaymentRequirementsFromOptions (ResourceServer srv)
         (normalizePaymentOptions rc) ctx = Inr requirements \<and>
       fst (enrichedExtensions srv rc ctx) = Inr enriched \<and>
       createPaymentRequiredResponse (ResourceServer srv) requirements (resourceInfo rc ctx)
         (Some ''Payment required'') enriched = Inr paymentRequired \<and>
       unpaidResponseBody rc = Some generator \<and> generator ctx = Inl e \<longrightarrow>
       fst (processHTTPRequest M srv ctx pc) = Inl e) \<and>
    (\<forall>payload requirements enriched paymentRequired.
       extractPayment M (adapter ctx) = Some payload \<and>
       buildPaymentRequirementsFromOptions (ResourceServer srv)
         (normalizePaymentOptions rc) ctx = Inr requirements \<and>
       fst (enrichedExtensions srv rc ctx) = Inr enriched \<and>
       createPaymentRequiredResponse (ResourceServer srv) requirements (resourceInfo rc ctx)
         None enriched = Inr paymentRequired \<and>
       (\<forall>why. \<exists>descriptor.
          createPaymentRequiredResponse (ResourceServer srv) requirements
            (resourceInfo rc ctx) why (extensions rc) = Inr descriptor) \<longrightarrow>
       (\<exists>result. fst (processHTTPRequest M srv ctx pc) = Inr result) \<and>
       (\<forall>e descriptor.
          findMatchingRequirements (ResourceServer srv) (required_accepts paymentRequired)
            payload = Inl e \<and>
          createPaymentRequiredResponse (ResourceServer srv) requirements
            (resourceInfo rc ctx) (Some (message_or e ''Payment verification failed''))
            (extensions rc) = Inr descriptor \<longrightarrow>
          fst (processHTTPRequest M srv ctx pc) =
            Inr (PaymentError
                   \<lparr>status = 402,
                    headers = [(''Content-Type'', ''application/json''),
                               (''PAYMENT-REQUIRED'',
                                encodePaymentRequiredHeader M descriptor)],
                    body = Some EmptyObject, isHtml = None\<rparr>)) \<and>
       (\<forall>matching e descriptor.
          findMatchingRequirements (ResourceServer srv) (required_accepts paymentRequired)
            payload = Inr (Some matching) \<and>
          verifyPayment (ResourceServer srv) payload matching = Inl e \<and>
          createPaymentRequiredResponse (ResourceServer srv) requirements
            (resourceInfo rc ctx) (Some (message_or e ''Payment verification failed''))
            (extensions rc) = Inr descriptor \<longrightarrow>
          fst (processHTTPRequest M srv ctx pc) =
            Inr (PaymentError
                   \<lparr>status = 402,
                    headers = [(''Content-Type'', ''application/json''),
                               (''PAYMENT-REQUIRED'',
                                encodePaymentRequiredHeader M descriptor)],
                    body = Some EmptyObject, isHtml = None\<rparr>))) \<and>
    (\<forall>payload requirements.
       \<exists>result. fst (processSettlement M srv payload requirements) = Inr result) \<and>
    (initialize_result (ResourceServer srv) = Inr () \<and>
     validateRouteConfiguration M srv \<noteq> [] \<longrightarrow>
     fst (initialize M srv) =
       Inl (ThrownRouteConfigurationError (validateRouteConfiguration M srv)))"
proof -
  have startup: "initialize_result (ResourceServer srv) = Inr () \<and>
     validateRouteConfiguration M srv \<noteq> [] \<longrightarrow>
     fst (initialize M srv) =
       Inl (ThrownRouteConfigurationError (validateRouteConfiguration M srv))"
    by (simp add: initialize_def await_returned fst_call throw_def Let_def)
  have gated: "processHTTPRequest M srv ctx pc = processGatedRequest M srv rc ctx pc"
    using route by (simp add: processHTTPRequest_def)
  have a: "\<forall>e. buildPaymentRequirementsFromOptions (ResourceServer srv)
           (normalizePaymentOptions rc) ctx = Inl e \<longrightarrow>
         fst (processGatedRequest M srv rc ctx pc) = Inl e"
    by (simp add: processGatedRequest_def Let_def await_thrown fst_call)
  have b: "\<forall>requirements declared e.
       buildPaymentRequirementsFromOptions (ResourceServer srv)
         (normalizePaymentOptions rc) ctx = Inr requirements \<and>
       extensions rc = Some declared \<and>
       enrichExtensions (ResourceServer srv) declared ctx = Inl e \<longrightarrow>
       fst (processGatedRequest M srv rc ctx pc) = Inl e"
    by (auto simp: processGatedRequest_def Let_def await_returned await_thrown fst_call
        enrichedExtensions_thrown)
  have c: "\<forall>requirements enriched e.
       buildPaymentRequirementsFromOptions (ResourceServer srv)
         (normalizePaymentOptions rc) ctx = Inr requirements \<and>
       fst (enrichedExtensions srv rc ctx) = Inr enriched \<and>
       createPaymentRequiredResponse (ResourceServer srv) requirements (resourceInfo rc ctx)
         (if extractPayment M (adapter ctx) = None then Some ''Payment required'' else None)
         enriched = Inl e \<longrightarrow>
       fst (processGatedRequest M srv rc ctx pc) = Inl e"
    by (auto simp: processGatedRequest_def Let_def await_returned await_thrown fst_call)
  have d: "\<forall>requirements enriched paymentRequired generator e.
       extractPayment M (adapter ctx) = None \<and>
       buildPaymentRequirementsFromOptions (ResourceServer srv)
         (normalizePaymentOptions rc) ctx = Inr requirements \<and>
       fst (enrichedExtensions srv rc ctx) = Inr enriched \<and>
       createPaymentRequiredResponse (ResourceServer srv) requirements (resourceInfo rc ctx)
         (Some ''Payment required'') enriched = Inr paymentRequired \<and>
       unpaidResponseBody rc = Some generator \<and> generator ctx = Inl e \<longrightarrow>
       fst (processGatedRequest M srv rc ctx pc) = Inl e"
    by (auto simp: processGatedRequest_def Let_def await_returned await_thrown fst_call
        unpaidBody_thrown)
  have e: "\<forall>payload requirements enriched paymentRequired.
       extractPayment M (adapter ctx) = Some payload \<and>
       buildPaymentRequirementsFromOptions (ResourceServer srv)
         (normalizePaymentOptions rc) ctx = Inr requirements \<and>
       fst (enrichedExtensions srv rc ctx) = Inr enriched \<and>
       createPaymentRequiredResponse (ResourceServer srv) requirements (resourceInfo rc ctx)
         None enriched = Inr paymentRequired \<and>
       (\<forall>why. \<exists>descriptor.
          createPaymentRequiredResponse (ResourceServer srv) requirements
            (resourceInfo rc ctx) why (extensions rc) = Inr descriptor) \<longrightarrow>
       (\<exists>result. fst (processGatedRequest M srv rc ctx pc) = Inr result) \<and>
       (\<forall>e descriptor.
          findMatchingRequirements (ResourceServer srv) (required_accepts paymentRequired)
            payload = Inl e \<and>
          createPaymentRequiredResponse (ResourceServer srv) requirements
            (resourceInfo rc ctx) (Some (message_or e ''Payment verification failed''))
            (extensions rc) = Inr descriptor \<longrightarrow>
          fst (processGatedRequest M srv rc ctx pc) =
            Inr (PaymentError
                   \<lparr>status = 402,
                    headers = [(''Content-Type'', ''application/json''),
                               (''PAYMENT-REQUIRED'',
                                encodePaymentRequiredHeader M descriptor)],
                    body = Some EmptyObject, isHtml = None\<rparr>)) \<and>
       (\<forall>matching e descriptor.
          findMatchingRequirements (ResourceServer srv) (required_accepts paymentRequired)
            payload = Inr (Some matching) \<and>
          verifyPayment (ResourceServer srv) payload matching = Inl e \<and>
          createPaymentRequiredResponse (ResourceServer srv) requirements
            (resourceInfo rc ctx) (Some (message_or e ''Payment verification failed''))
            (extensions rc) = Inr descriptor \<longrightarrow>
          fst (processGatedRequest M srv rc ctx pc) =
            Inr (PaymentError
                   \<lparr>status = 402,
                    headers = [(''Content-Type'', ''application/json''),
                               (''PAYMENT-REQUIRED'',
                                encodePaymentRequiredHeader M descriptor)],
                    body = Some EmptyObject, isHtml = None\<rparr>))"
  proof (intro allI impI, elim conjE)
    fix payload requirements enriched paymentRequired
    assume present: "extractPayment M (adapter ctx) = Some payload"
      and built: "buildPaymentRequirementsFromOptions (ResourceServer srv)
         (normalizePaymentOptions rc) ctx = Inr requirements"
      and enriched: "fst (enrichedExtensions srv rc ctx) = Inr enriched"
      and offered: "createPaymentRequiredResponse (ResourceServer srv) requirements
         (resourceInfo rc ctx) None enriched = Inr paymentRequired"
      and describable: "\<forall>why. \<exists>descriptor.
          createPaymentRequiredResponse (ResourceServer srv) requirements
            (resourceInfo rc ctx) why (extensions rc) = Inr descriptor"
    note paid = gated_paid [OF present built enriched offered, of pc]
    from block_returns [OF describable]
    have "\<exists>result. fst (processGatedRequest M srv rc ctx pc) = Inr result"
      by (simp add: paid)
    then show "(\<exists>result. fst (processGatedRequest M srv rc ctx pc) = Inr result) \<and>
       (\<forall>e descriptor.
          findMatchingRequirements (ResourceServer srv) (required_accepts paymentRequired)
            payload = Inl e \<and>
          createPaymentRequiredResponse (ResourceServer srv) requirements
            (resourceInfo rc ctx) (Some (message_or e ''Payment verification failed''))
            (extensions rc) = Inr descriptor \<longrightarrow>
          fst (processGatedRequest M srv rc ctx pc) =
            Inr (PaymentError
                   \<lparr>status = 402,
                    headers = [(''Content-Type'', ''application/json''),
                               (''PAYMENT-REQUIRED'',
                                encodePaymentRequiredHeader M descriptor)],
                    body = Some EmptyObject, isHtml = None\<rparr>)) \<and>
       (\<forall>matching e descriptor.
          findMatchingRequirements (ResourceServer srv) (required_accepts paymentRequired)
            payload = Inr (Some matching) \<and>
          verifyPayment (ResourceServer srv) payload matching = Inl e \<and>
          createPaymentRequiredResponse (ResourceServer srv) requirements
            (resourceInfo rc ctx) (Some (message_or e ''Payment verification failed''))
            (extensions rc) = Inr descriptor \<longrightarrow>
          fst (processGatedRequest M srv rc ctx pc) =
            Inr (PaymentError
                   \<lparr>status = 402,
                    headers = [(''Content-Type'', ''application/json''),
                               (''PAYMENT-REQUIRED'',
                                encodePaymentRequiredHeader M descriptor)],
                    body = Some EmptyObject, isHtml = None\<rparr>))"
      by (auto simp: paid block_find_throws block_verify_throws error_response)
  qed
  from a b c d e processSettlement_returns [of M srv] startup show ?thesis
    unfolding gated by blast
qed


section \<open>The theorems on the example deployment\<close>

lemma demo_gateway_fields:
  "ResourceServer (demo_gateway rs) = rs"
  "compiledRoutes (demo_gateway rs) = demo_compiled"
  "routesConfig (demo_gateway rs) = demo_table"
  "paywallProvider (demo_gateway rs) = None"
  by (simp_all add: demo_gateway_def)

lemma demo_server_fields:
  "ResourceServer (demo_server routes compiled) = demo_authority"
  "compiledRoutes (demo_server routes compiled) = compiled"
  "routesConfig (demo_server routes compiled) = routes"
  "paywallProvider (demo_server routes compiled) = None"
  by (simp_all add: demo_server_def)

lemma demo_context_fields:
  "adapter (demo_context header accept userAgent) = demo_adapter header accept userAgent"
  "path (demo_context header accept userAgent) = ''/api/data?fresh=1''"
  "method (demo_context header accept userAgent) = ''get''"
  by (simp_all add: demo_context_def)

lemmas demo_defs =
  demo_adapter_def demo_option_def demo_route_def demo_authority_def
  demo_imports_def demo_wildcard_route_def demo_data_route_def
  demo_preview_route_def demo_throwing_route_def
  demo_gateway_fields demo_server_fields demo_context_fields

lemmas request_defs =
  processHTTPRequest_def processGatedRequest_def verifyPaymentBlock_def
  enrichedExtensions_def unpaidBody_def resourceInfo_def extractPayment_def
  payment_signature_header_def createHTTPResponse_def createHTTPPaymentRequiredResponse_def
  isWebBrowser_def generatePaywallHTML_def normalizePaymentOptions_def
  await_def try_catch_def call_def resolve_def

lemma demo_gateway_lookup:
  "getRouteConfig (demo_gateway rs) ''/api/data?fresh=1'' ''get'' = Some demo_wildcard_route"
  by (simp add: getRouteConfig_def demo_gateway_fields demo_compiled_def route_matches_def
      normalizePath_examples demo_tests del: test.simps)

lemma demo_single_lookup:
  "getRouteConfig (demo_server (SingleRoute rc) [\<lparr>verb = ''*'', regex = test [DotStarLazy], config = rc\<rparr>])
     ''/api/data?fresh=1'' ''get'' = Some rc"
  by (simp add: getRouteConfig_def demo_server_fields route_matches_def
      normalizePath_examples test_examples del: test.simps)

theorem C2_witness:
  "processHTTPRequest demo_imports (demo_gateway demo_authority)
       (demo_context (Some ''sig:eip155:8453'') [] []) None =
     (Inr (PaymentVerified ''eip155:8453'' \<lparr>requirements_network = ''eip155:8453''\<rparr>),
      [Call_buildPaymentRequirementsFromOptions, Call_createPaymentRequiredResponse None,
       Call_findMatchingRequirements, Call_verifyPayment]) \<and>
   fst (processHTTPRequest demo_imports (demo_gateway demo_authority)
          (demo_context (Some ''sig:solana:mainnet'') [] []) None) =
     Inr (PaymentError
            \<lparr>status = 402,
             headers = [(''Content-Type'', ''application/json''),
                        (''PAYMENT-REQUIRED'', ''required:No matching payment requirements'')],
             body = Some EmptyObject, isHtml = None\<rparr>) \<and>
   fst (processHTTPRequest demo_imports
          (demo_gateway
             (demo_authority
                \<lparr>verifyPayment :=
                   (\<lambda>payload requirements.
                      Inr \<lparr>isValid = False, invalidReason = Some ''insufficient_funds''\<rparr>)\<rparr>))
          (demo_context (Some ''sig:eip155:8453'') [] []) None) =
     Inr (PaymentError
            \<lparr>status = 402,
             headers = [(''Content-Type'', ''application/json''),
                        (''PAYMENT-REQUIRED'', ''required:insufficient_funds'')],
             body = Some EmptyObject, isHtml = None\<rparr>)"
proof -
  let ?srv = "demo_gateway demo_authority"
  let ?ctx = "demo_context (Some ''sig:eip155:8453'') [] []"
  let ?reqs = "[\<lparr>requirements_network = ''eip155:8453''\<rparr>,
                \<lparr>requirements_network = ''eip155:84532''\<rparr>]"
  have route: "getRouteConfig ?srv (path ?ctx) (method ?ctx) = Some demo_wildcard_route"
    by (simp add: demo_context_fields demo_gateway_lookup)
  have header: "payment_signature_header (adapter ?ctx) = Some ''sig:eip155:8453''"
    by (simp add: payment_signature_header_def demo_defs)
  have decoded: "decodePaymentSignatureHeader demo_imports ''sig:eip155:8453'' = Inr ''eip155:8453''"
    by (simp add: demo_defs)
  have built: "buildPaymentRequirementsFromOptions (ResourceServer ?srv)
      (normalizePaymentOptions demo_wildcard_route) ?ctx = Inr ?reqs"
    by (simp add: normalizePaymentOptions_def demo_defs)
  have enriched: "fst (enrichedExtensions ?srv demo_wildcard_route ?ctx) = Inr None"
    by (simp add: enrichedExtensions_def resolve_def demo_defs)
  have offered: "createPaymentRequiredResponse (ResourceServer ?srv) ?reqs
      (resourceInfo demo_wildcard_route ?ctx) None None =
      Inr \<lparr>required_accepts = ?reqs, \<dots> = None\<rparr>"
    by (simp add: demo_defs)
  have none: "snd (enrichedExtensions ?srv demo_wildcard_route ?ctx) = []"
    by (simp add: enrichedExtensions_def resolve_def demo_defs)
  have verified: "processHTTPRequest demo_imports ?srv ?ctx None =
     (Inr (PaymentVerified ''eip155:8453'' \<lparr>requirements_network = ''eip155:8453''\<rparr>),
      [Call_buildPaymentRequirementsFromOptions, Call_createPaymentRequiredResponse None,
       Call_findMatchingRequirements, Call_verifyPayment])"
  proof -
    have found: "findMatchingRequirements (ResourceServer ?srv)
        (required_accepts \<lparr>required_accepts = ?reqs, \<dots> = None\<rparr>) ''eip155:8453'' =
        Inr (Some \<lparr>requirements_network = ''eip155:8453''\<rparr>)"
      by (simp add: demo_defs)
    have valid: "verifyPayment (ResourceServer ?srv) ''eip155:8453''
        \<lparr>requirements_network = ''eip155:8453''\<rparr> = Inr \<lparr>isValid = True, invalidReason = None\<rparr>"
      by (simp add: demo_defs)
    from C2_verification_outcomes [OF route header _ decoded built enriched offered, of None]
      found valid none
    show ?thesis by auto
  qed
  show ?thesis
    unfolding verified
    by (simp add: request_defs demo_defs demo_gateway_lookup)
qed




theorem C4_witness:
  "fst (processHTTPRequest demo_imports
          (demo_gateway
             (demo_authority
                \<lparr>verifyPayment :=
                   (\<lambda>payload requirements. Inl (ThrownError ''facilitator timed out''))\<rparr>))
          (demo_context (Some ''sig:eip155:8453'') [] []) None) =
     Inr (PaymentError
            \<lparr>status = 402,
             headers = [(''Content-Type'', ''application/json''),
                        (''PAYMENT-REQUIRED'', ''required:facilitator timed out'')],
             body = Some EmptyObject, isHtml = None\<rparr>) \<and>
   fst (processHTTPRequest demo_imports
          (demo_gateway
             (demo_authority
                \<lparr>findMatchingRequirements := (\<lambda>requirements payload. Inl ThrownOther)\<rparr>))
          (demo_context (Some ''sig:eip155:8453'') [] []) None) =
     Inr (PaymentError
            \<lparr>status = 402,
             headers = [(''Content-Type'', ''application/json''),
                        (''PAYMENT-REQUIRED'', ''required:Payment verification failed'')],
             body = Some EmptyObject, isHtml = None\<rparr>)"
proof -
  let ?rs = "demo_authority
                \<lparr>verifyPayment :=
                   (\<lambda>payload requirements. Inl (ThrownError ''facilitator timed out''))\<rparr>"
  let ?srv = "demo_gateway ?rs"
  let ?ctx = "demo_context (Some ''sig:eip155:8453'') [] []"
  let ?reqs = "[\<lparr>requirements_network = ''eip155:8453''\<rparr>,
                \<lparr>requirements_network = ''eip155:84532''\<rparr>]"
  have route: "getRouteConfig ?srv (path ?ctx) (method ?ctx) = Some demo_wildcard_route"
    by (simp add: demo_context_fields demo_gateway_lookup)
  have present: "extractPayment demo_imports (adapter ?ctx) = Some ''eip155:8453''"
    by (simp add: extractPayment_def payment_signature_header_def demo_defs)
  have built: "buildPaymentRequirementsFromOptions (ResourceServer ?srv)
      (normalizePaymentOptions demo_wildcard_route) ?ctx = Inr ?reqs"
    by (simp add: normalizePaymentOptions_def demo_defs)
  have enriched: "fst (enrichedExtensions ?srv demo_wildcard_route ?ctx) = Inr None"
    by (simp add: enrichedExtensions_def resolve_def demo_defs)
  have offered: "createPaymentRequiredResponse (ResourceServer ?srv) ?reqs
      (resourceInfo demo_wildcard_route ?ctx) None None =
      Inr \<lparr>required_accepts = ?reqs, \<dots> = None\<rparr>"
    by (simp add: demo_defs)
  have describable: "\<forall>why. \<exists>descriptor.
      createPaymentRequiredResponse (ResourceServer ?srv) ?reqs
        (resourceInfo demo_wildcard_route ?ctx) why (extensions demo_wildcard_route) =
      Inr descriptor"
    by (simp add: demo_defs)
  have found: "findMatchingRequirements (ResourceServer ?srv)
      (required_accepts \<lparr>required_accepts = ?reqs, \<dots> = None\<rparr>) ''eip155:8453'' =
      Inr (Some \<lparr>requirements_network = ''eip155:8453''\<rparr>)"
    by (simp add: demo_defs)
  have thrown: "verifyPayment (ResourceServer ?srv) ''eip155:8453''
      \<lparr>requirements_network = ''eip155:8453''\<rparr> = Inl (ThrownError ''facilitator timed out'')"
    by (simp add: demo_defs)
  have described: "createPaymentRequiredResponse (ResourceServer ?srv) ?reqs
      (resourceInfo demo_wildcard_route ?ctx)
      (Some (message_or (ThrownError ''facilitator timed out'') ''Payment verification failed''))
      (extensions demo_wildcard_route) =
      Inr \<lparr>required_accepts = ?reqs, \<dots> = Some ''facilitator timed out''\<rparr>"
    by (simp add: demo_defs)
  note guarded =
    C4_only_matching_and_verification_are_guarded [OF route, of demo_imports None,
      THEN conjunct2, THEN conjunct2, THEN conjunct2, THEN conjunct2, THEN conjunct1,
      rule_format,
      OF conjI [OF present conjI [OF built conjI [OF enriched conjI [OF offered describable]]]]]
  note first =
    guarded [THEN conjunct2, THEN conjunct2, rule_format,
      OF conjI [OF found conjI [OF thrown described]]]
  show ?thesis
    unfolding first
    by (simp add: request_defs demo_defs demo_gateway_lookup)
qed

text \<open>
  Claim C4 as stated fails: an exception leaves \<^verbatim>\<open>processHTTPRequest\<close> when the route's
  generator of the unpaid response throws, when the building of the requirements throws,
  and when the verification throws and the descriptor of that error cannot be built.
\<close>

theorem C4_counterexample:
  "fst (processHTTPRequest demo_imports
          (demo_server (SingleRoute demo_throwing_route)
             [\<lparr>verb = ''*'', regex = test [DotStarLazy], config = demo_throwing_route\<rparr>])
          (demo_context None [] []) None) =
     Inl (ThrownError ''preview unavailable'') \<and>
   fst (processHTTPRequest demo_imports
          (demo_gateway
             (demo_authority
                \<lparr>buildPaymentRequirementsFromOptions :=
                   (\<lambda>options context. Inl (ThrownError ''price lookup failed''))\<rparr>))
          (demo_context (Some ''sig:eip155:8453'') [] []) None) =
     Inl (ThrownError ''price lookup failed'') \<and>
   fst (processHTTPRequest demo_imports
          (demo_gateway
             (demo_authority
                \<lparr>verifyPayment :=
                   (\<lambda>payload requirements. Inl (ThrownError ''facilitator timed out'')),
                 createPaymentRequiredResponse :=
                   (\<lambda>requirements info why declared.
                      if why = None then Inr \<lparr>required_accepts = requirements, \<dots> = why\<rparr>
                      else Inl (ThrownError ''descriptor failed''))\<rparr>))
          (demo_context (Some ''sig:eip155:8453'') [] []) None) =
     Inl (ThrownError ''descriptor failed'')"
  by (simp add: request_defs demo_defs demo_gateway_lookup demo_single_lookup)

theorem C5_witness:
  "processSettlement demo_imports (demo_gateway demo_authority) ''eip155:8453''
       \<lparr>requirements_network = ''eip155:8453''\<rparr> =
     (Inr (ProcessSettleSuccess
             \<lparr>success = True, errorReason = None, payer = Some ''0xpayer'',
              transaction = ''0xtx'', settle_network = ''eip155:8453''\<rparr>
             [(''PAYMENT-RESPONSE'', ''settled:0xtx@eip155:8453'')]
             \<lparr>requirements_network = ''eip155:8453''\<rparr>),
      [Call_settlePayment]) \<and>
   fst (processSettlement demo_imports
          (demo_gateway
             (demo_authority
                \<lparr>settlePayment :=
                   (\<lambda>payload requirements.
                      Inr \<lparr>success = False, errorReason = None, payer = None,
                           transaction = [], settle_network = ''eip155:8453''\<rparr>)\<rparr>))
          ''eip155:8453'' \<lparr>requirements_network = ''eip155:8453''\<rparr>) =
     Inr (ProcessSettleFailure
            \<lparr>success = False, errorReason = Some ''Settlement failed'', payer = None,
             transaction = [], settle_network = ''eip155:8453''\<rparr>) \<and>
   fst (processSettlement demo_imports
          (demo_gateway
             (demo_authority
                \<lparr>settlePayment :=
                   (\<lambda>payload requirements.
                      Inl (ThrownSettleError
                             \<lparr>settle_error_message = ''settle failed'',
                              settle_error_reason = Some ''insufficient_funds'',
                              settle_error_payer = Some ''0xpayer'',
                              settle_error_network = ''eip155:1'',
                              settle_error_transaction = ''0xdead''\<rparr>))\<rparr>))
          ''eip155:8453'' \<lparr>requirements_network = ''eip155:8453''\<rparr>) =
     Inr (ProcessSettleFailure
            \<lparr>success = False, errorReason = Some ''insufficient_funds'',
             payer = Some ''0xpayer'', transaction = ''0xdead'',
             settle_network = ''eip155:1''\<rparr>) \<and>
   fst (processSettlement demo_imports
          (demo_gateway
             (demo_authority
                \<lparr>settlePayment :=
                   (\<lambda>payload requirements. Inl (ThrownError ''socket hang up''))\<rparr>))
          ''eip155:8453'' \<lparr>requirements_network = ''eip155:8453''\<rparr>) =
     Inr (ProcessSettleFailure
            \<lparr>success = False, errorReason = Some ''socket hang up'', payer = None,
             transaction = [], settle_network = ''eip155:8453''\<rparr>)"
  using C5_settlement_outcomes
      [of demo_imports "demo_gateway demo_authority" "''eip155:8453''"
          "\<lparr>requirements_network = ''eip155:8453''\<rparr>"]
  by (simp add: processSettlement_def createSettlementHeaders_def try_catch_def await_def
      call_def resolve_def demo_defs)

theorem C6_witness:
  "isWebBrowser (demo_adapter None ''text/html,application/xhtml+xml'' ''Mozilla/5.0'') \<and>
   \<not> isWebBrowser (demo_adapter None ''text/html'' ''curl/8.5'') \<and>
   \<not> isWebBrowser (demo_adapter None ''application/json'' ''Mozilla/5.0'') \<and>
   fst (processGatedRequest demo_imports (demo_gateway demo_authority) demo_preview_route
          (demo_context None ''text/html,application/xhtml+xml'' ''Mozilla/5.0'') None) =
     Inr (PaymentError
            \<lparr>status = 402, headers = [(''Content-Type'', ''text/html'')],
             body = Some (Html ''<h1>Payment Required</h1>''), isHtml = Some True\<rparr>) \<and>
   fst (processGatedRequest demo_imports (demo_gateway demo_authority) demo_preview_route
          (demo_context None ''application/json'' ''curl/8.5'') None) =
     Inr (PaymentError
            \<lparr>status = 402,
             headers = [(''Content-Type'', ''text/plain''),
                        (''PAYMENT-REQUIRED'', ''required:Payment required'')],
             body = Some (Custom ''preview''), isHtml = None\<rparr>) \<and>
   fst (processGatedRequest demo_imports (demo_gateway demo_authority) demo_wildcard_route
          (demo_context None ''application/json'' ''curl/8.5'') None) =
     Inr (PaymentError
            \<lparr>status = 402,
             headers = [(''Content-Type'', ''application/json''),
                        (''PAYMENT-REQUIRED'', ''required:Payment required'')],
             body = Some EmptyObject, isHtml = None\<rparr>)"
  using C6_response_composition
      [of "demo_adapter None ''text/html,application/xhtml+xml'' ''Mozilla/5.0''"
          demo_imports "demo_gateway demo_authority"]
  by (simp add: request_defs demo_defs)


end
